theory Spec2Isabelle
  imports Complex_Main "HOL-Library.Multiset"
begin

section \<open>JavaScript numbers and strings\<close>

text \<open>
  The converter is TypeScript. A \<^verbatim>\<open>number\<close> is an IEEE 754 double: it is modelled as the
  real number it stands for (\<^typ>\<open>real\<close>), and every arithmetic operation of the code
  rounds its exact result to the nearest double, as the language prescribes. Net numbers and
  counters are \<^typ>\<open>int\<close>. NaN, the infinities and the sign of zero are outside the
  model: a statement about arithmetic bounds its inputs so that no operation overflows.
  An optional field (\<^verbatim>\<open>undefined\<close> or \<^verbatim>\<open>null\<close>) is an \<^typ>\<open>'a option\<close>; the drill of a pad,
  where the code tells the two apart, has a value of its own for \<^verbatim>\<open>null\<close>. A field read as
  \<^verbatim>\<open>xs || []\<close> and then wrapped by \<^verbatim>\<open>Array.isArray\<close> is a list, the absent field being
  the empty list.
\<close>

subsection \<open>Double arithmetic\<close>

text \<open>
  Rounding to the nearest integer, a tie going to the even one, and the exponent \<open>e\<close> of the
  binade \<open>2\<^sup>e \<le> \<bar>x\<bar> < 2\<^sup>e\<^sup>+\<^sup>1\<close> of a number, which is at least \<open>-1022\<close>: below
  \<open>2\<^sup>-\<^sup>1\<^sup>0\<^sup>2\<^sup>2\<close> the doubles are subnormal and keep the spacing \<open>2\<^sup>-\<^sup>1\<^sup>0\<^sup>7\<^sup>4\<close>.
\<close>

definition round_ties_even :: "real \<Rightarrow> int" where
  "round_ties_even q =
     (let f = \<lfloor>q\<rfloor>; r = q - of_int f in
      if r < 1 / 2 then f else if 1 / 2 < r then f + 1
      else if even f then f else f + 1)"

definition binade :: "real \<Rightarrow> int" where
  "binade x = max \<lfloor>log 2 \<bar>x\<bar>\<rfloor> (- 1022)"

text \<open>
  The double nearest to a real number: a multiple of \<open>2\<^sup>e\<^sup>-\<^sup>5\<^sup>2\<close>, the spacing of the
  doubles of its binade. A numeric literal of the code such as \<^verbatim>\<open>0.001\<close> denotes
  \<open>fl (1 / 1000)\<close>.
\<close>

definition fl :: "real \<Rightarrow> real" where
  "fl x = (if x = 0 then 0
           else let u = 2 powi (binade x - 52) in of_int (round_ties_even (x / u)) * u)"

text \<open>The operators \<^verbatim>\<open>+\<close>, \<^verbatim>\<open>-\<close>, \<^verbatim>\<open>*\<close> and \<^verbatim>\<open>/\<close>.\<close>

definition fadd :: "real \<Rightarrow> real \<Rightarrow> real" where
  "fadd x y = fl (x + y)"

definition fsub :: "real \<Rightarrow> real \<Rightarrow> real" where
  "fsub x y = fl (x - y)"

definition fmul :: "real \<Rightarrow> real \<Rightarrow> real" where
  "fmul x y = fl (x * y)"

definition fdiv :: "real \<Rightarrow> real \<Rightarrow> real" where
  "fdiv x y = fl (x / y)"

text \<open>
  \<^verbatim>\<open>Math.PI\<close> is the double nearest to \<open>\<pi>\<close>, which is \<open>884279719003555 / 2\<^sup>4\<^sup>8\<close>. The
  library functions \<^verbatim>\<open>Math.sqrt\<close>, \<^verbatim>\<open>Math.cos\<close>, \<^verbatim>\<open>Math.sin\<close> and \<^verbatim>\<open>Math.atan2\<close>
  return the double nearest to the exact value; the language allows an implementation to be
  off in the last place.
\<close>

definition Math_PI :: real where
  "Math_PI = 884279719003555 / 2 ^ 48"

definition Math_sqrt :: "real \<Rightarrow> real" where
  "Math_sqrt x = fl (sqrt x)"

definition Math_cos :: "real \<Rightarrow> real" where
  "Math_cos x = fl (cos x)"

definition Math_sin :: "real \<Rightarrow> real" where
  "Math_sin x = fl (sin x)"

definition atan2 :: "real \<Rightarrow> real \<Rightarrow> real" where
  "atan2 y x =
     (if 0 < x then arctan (y / x)
      else if x < 0 then (if 0 \<le> y then arctan (y / x) + pi else arctan (y / x) - pi)
      else if 0 < y then pi / 2
      else if y < 0 then - (pi / 2)
      else 0)"

definition Math_atan2 :: "real \<Rightarrow> real \<Rightarrow> real" where
  "Math_atan2 y x = fl (atan2 y x)"

subsection \<open>Other operators\<close>

definition js_trunc :: "real \<Rightarrow> int" where
  "js_trunc r = (if 0 \<le> r then \<lfloor>r\<rfloor> else \<lceil>r\<rceil>)"

text \<open>
  The remainder operator \<^verbatim>\<open>x % y\<close>: the result has the sign of the dividend. The
  remainder of two doubles is a double, there is nothing to round.
\<close>

definition js_rem :: "real \<Rightarrow> real \<Rightarrow> real" where
  "js_rem x y = x - y * of_int (js_trunc (x / y))"

text \<open>\<^verbatim>\<open>a || b\<close> on numbers: zero is falsy.\<close>

definition num_or :: "real option \<Rightarrow> real \<Rightarrow> real" where
  "num_or a b = (case a of None \<Rightarrow> b | Some v \<Rightarrow> if v = 0 then b else v)"

definition int_or :: "int option \<Rightarrow> int \<Rightarrow> int" where
  "int_or a b = (case a of None \<Rightarrow> b | Some v \<Rightarrow> if v = 0 then b else v)"

text \<open>\<^verbatim>\<open>a || b\<close> on strings: the empty string is falsy.\<close>

definition str_or :: "string option \<Rightarrow> string \<Rightarrow> string" where
  "str_or a b = (case a of None \<Rightarrow> b | Some v \<Rightarrow> if v = [] then b else v)"

definition str_truthy :: "string option \<Rightarrow> bool" where
  "str_truthy a = (case a of None \<Rightarrow> False | Some v \<Rightarrow> v \<noteq> [])"

text \<open>\<^verbatim>\<open>a ?? b\<close>: only an absent value falls through.\<close>

definition nullish :: "'a option \<Rightarrow> 'a option \<Rightarrow> 'a option" where
  "nullish a b = (case a of None \<Rightarrow> b | Some v \<Rightarrow> Some v)"

definition digit_char :: "nat \<Rightarrow> char" where
  "digit_char n = ''0123456789'' ! n"

function show_nat :: "nat \<Rightarrow> string" where
  "show_nat n = (if n < 10 then [digit_char n] else show_nat (n div 10) @ [digit_char (n mod 10)])"
  by pat_completeness auto
termination
  by (relation "measure id") auto

declare show_nat.simps [simp del]

text \<open>The decimal text of an integer-valued number, as a template literal prints it.\<close>

definition show_int :: "int \<Rightarrow> string" where
  "show_int i = (if i < 0 then CHR ''-'' # show_nat (nat (- i)) else show_nat (nat i))"

definition startsWith :: "string \<Rightarrow> string \<Rightarrow> bool" where
  "startsWith s p = (take (length p) s = p)"

fun str_includes :: "string \<Rightarrow> string \<Rightarrow> bool" where
  "str_includes [] p = (p = [])"
| "str_includes (c # s) p = (startsWith (c # s) p \<or> str_includes s p)"

text \<open>\<^verbatim>\<open>toLowerCase\<close> on the ASCII letters.\<close>

definition lower_char :: "char \<Rightarrow> char" where
  "lower_char c =
     (case map_of (zip ''ABCDEFGHIJKLMNOPQRSTUVWXYZ'' ''abcdefghijklmnopqrstuvwxyz'') c of
        None \<Rightarrow> c
      | Some l \<Rightarrow> l)"

definition toLowerCase :: "string \<Rightarrow> string" where
  "toLowerCase s = map lower_char s"

fun join_sp :: "string list \<Rightarrow> string" where
  "join_sp [] = []"
| "join_sp [s] = s"
| "join_sp (s # t # ss) = s @ '' '' @ join_sp (t # ss)"

text \<open>
  \<^verbatim>\<open>parseInt(s, 10)\<close>: leading white space, an optional sign, then the longest run of
  decimal digits; \<open>None\<close> is NaN.
\<close>

definition is_digit :: "char \<Rightarrow> bool" where
  "is_digit c = (let n = (of_char c :: nat) in 48 \<le> n \<and> n \<le> 57)"

definition is_space :: "char \<Rightarrow> bool" where
  "is_space c = (let n = (of_char c :: nat) in n = 32 \<or> (9 \<le> n \<and> n \<le> 13))"

definition digits_value :: "string \<Rightarrow> int" where
  "digits_value ds = foldl (\<lambda>acc c. 10 * acc + (int (of_char c) - 48)) 0 ds"

definition parse_digits :: "string \<Rightarrow> int option" where
  "parse_digits s = (let ds = takeWhile is_digit s in if ds = [] then None else Some (digits_value ds))"

definition parseInt :: "string \<Rightarrow> int option" where
  "parseInt s =
     (case dropWhile is_space s of
        [] \<Rightarrow> None
      | c # r \<Rightarrow>
          if c = CHR ''-'' then map_option uminus (parse_digits r)
          else if c = CHR ''+'' then parse_digits r
          else parse_digits (c # r))"

section \<open>Geometry\<close>

text \<open>A point \<^verbatim>\<open>{x, y}\<close> is the pair \<open>(x, y)\<close>.\<close>

type_synonym point = "real \<times> real"

text \<open>
  The affine matrix \<^verbatim>\<open>{a, b, c, d, e, f}\<close> of the transformation-matrix package and its
  \<^verbatim>\<open>applyToPoint\<close>.
\<close>

record matrix =
  m_a :: real
  m_b :: real
  m_c :: real
  m_d :: real
  m_e :: real
  m_f :: real

definition applyToPoint :: "matrix \<Rightarrow> point \<Rightarrow> point" where
  "applyToPoint m p =
     (fadd (fadd (fmul (m_a m) (fst p)) (fmul (m_c m) (snd p))) (m_e m),
      fadd (fadd (fmul (m_b m) (fst p)) (fmul (m_d m) (snd p))) (m_f m))"

subsection \<open>rotationToDirection\<close>

datatype direction = Dir_up | Dir_right | Dir_down | Dir_left

fun direction_str :: "direction \<Rightarrow> string" where
  "direction_str Dir_up = ''up''"
| "direction_str Dir_right = ''right''"
| "direction_str Dir_down = ''down''"
| "direction_str Dir_left = ''left''"

definition normalize_rotation :: "real \<Rightarrow> real" where
  "normalize_rotation rotation = js_rem (fadd (js_rem rotation 360) 360) 360"

definition rotationToDirection :: "real \<Rightarrow> direction" where
  "rotationToDirection rotation =
     (let normalized = normalize_rotation rotation in
      if normalized \<ge> 315 \<or> normalized < 45 then Dir_up
      else if normalized \<ge> 45 \<and> normalized < 135 then Dir_right
      else if normalized \<ge> 135 \<and> normalized < 225 then Dir_down
      else Dir_left)"

section \<open>The parsed design tree\<close>

text \<open>A property of a symbol or footprint: \<^verbatim>\<open>key\<close>, \<^verbatim>\<open>name\<close>, \<^verbatim>\<open>value\<close>.\<close>

record property =
  prop_key :: "string option"
  prop_name :: "string option"
  prop_value :: "string option"

text \<open>
  A net reference on a pad (\<^verbatim>\<open>pad._sxNet\<close>, \<^verbatim>\<open>pad.net\<close>): a number, an object
  with \<^verbatim>\<open>_id\<close>, \<^verbatim>\<open>number\<close> and \<^verbatim>\<open>ordinal\<close>, or a string.
\<close>

datatype js_net =
    NetNumber int
  | NetObject "int option" "int option" "int option"
  | NetString string

text \<open>A pad number is a number or a string; \<^verbatim>\<open>toString\<close> makes it a string.\<close>

datatype pad_number = PadNum int | PadStr string

fun pad_number_toString :: "pad_number \<Rightarrow> string" where
  "pad_number_toString (PadNum n) = show_int n"
| "pad_number_toString (PadStr s) = s"

record pad_at =
  pat_x :: real
  pat_y :: real
  pat_angle :: "real option"

text \<open>
  \<^verbatim>\<open>pad.size\<close> is an array \<^verbatim>\<open>[width, height]\<close> or an object with \<^verbatim>\<open>_width\<close>,
  \<^verbatim>\<open>x\<close>, \<^verbatim>\<open>_height\<close>, \<^verbatim>\<open>y\<close>; \<^verbatim>\<open>pad.drill\<close> is \<^verbatim>\<open>null\<close>, a number or an object with
  \<^verbatim>\<open>diameter\<close>, \<^verbatim>\<open>x\<close>, \<^verbatim>\<open>y\<close>, and \<open>None\<close> when it is \<^verbatim>\<open>undefined\<close>.
\<close>

datatype pad_size =
    SizeArray "real option" "real option"
  | SizeObject "real option" "real option" "real option" "real option"

datatype pad_drill =
    DrillNull
  | DrillNumber real
  | DrillObject "real option" "real option" "real option"

record gr_contour =
  contour_points :: "(real option \<times> real option) list option"
  contour_pts :: "(real option \<times> real option) list option"

record poly_body =
  body_sx_contours :: "gr_contour list option"
  body_contours :: "gr_contour list option"

record gr_primitive =
  prim_token :: "string option"
  prim_type :: "string option"
  prim_gr_poly :: "poly_body option"
  prim_body :: poly_body

record pad =
  pad_number :: "pad_number option"
  pad_sxNet :: "js_net option"
  pad_net :: "js_net option"
  pad_at :: "pad_at option"
  pad_padType :: "string option"
  pad_type :: "string option"
  pad_shape :: "string option"
  pad_size :: "pad_size option"
  pad_drill :: "pad_drill option"
  pad_layers :: "string list option"
  pad_sxGraphics :: "gr_primitive list option"
  pad_primitives :: "gr_primitive list option"
  pad_sxRoundrectRatio :: "real option"
  pad_roundrect_rratio :: "real option"

record fp_text =
  fpt_type :: "string option"
  fpt_text :: "string option"

record footprint =
  fp_uuid :: "string option"
  fp_tstamp :: "string option"
  fp_pads :: "pad list"
  fp_properties :: "property list"
  fp_texts :: "fp_text list"

text \<open>An entry of the net table of the board.\<close>

record net_entry =
  net_sx_id :: "int option"
  net_number :: "int option"
  net_ordinal :: "int option"
  net_sx_name :: "string option"
  net_name :: "string option"

datatype via_layers = ViaLayersArray "string list" | ViaLayersObject "string list option"

record via =
  via_at :: "point option"
  via_size :: "real option"
  via_drill :: "real option"
  via_net :: "int option"
  via_layers :: "via_layers option"

text \<open>A layer reference is a string or an object with \<^verbatim>\<open>names\<close> and \<^verbatim>\<open>_names\<close>.\<close>

datatype layer_ref = LayerString string | LayerObject "string list option" "string list option"

record gr_line =
  grl_layer :: "layer_ref option"
  grl_start :: "point option"
  grl_end :: "point option"
  grl_width :: "real option"

record sx_fill =
  fill_isFilled :: "bool option"
  fill_filled :: "bool option"
  fill_String :: string

record gr_rect =
  grr_start :: "(real option \<times> real option) option"
  grr_end :: "(real option \<times> real option) option"
  grr_layer :: "layer_ref option"
  grr_fill :: "sx_fill option"

datatype poly_pt = PtXY real real | PtArc point point point | PtOther

record gr_poly =
  grp_layer :: "layer_ref option"
  grp_fill :: "sx_fill option"
  grp_pts :: "poly_pt list"

record gr_text =
  grt_at :: "(real option \<times> real option) option"
  grt_sxPosition :: "(real option \<times> real option) option"
  grt_layer :: "layer_ref option"
  grt_sx_font_height :: "real option"
  grt_font_size_y :: "real option"
  grt_text :: "string option"
  grt_sx_text :: "string option"

text \<open>
  A zone keeps what the parser read in \<^verbatim>\<open>_rawChildren\<close>: nested arrays of strings and
  numbers. The field is \<open>None\<close> when it is absent or not an array.
\<close>

datatype sexp = SStr string | SNum real | SList "sexp list"

record zone =
  zone_rawChildren :: "sexp list option"

record kicad_pcb =
  pcb_footprints :: "footprint list"
  pcb_nets :: "net_entry list"
  pcb_vias :: "via list"
  pcb_graphicLines :: "gr_line list"
  pcb_graphicRects :: "gr_rect list"
  pcb_graphicPolys :: "gr_poly list"
  pcb_graphicTexts :: "gr_text list"
  pcb_zones :: "zone list"

record sym_at =
  sat_x :: "real option"
  sat_y :: "real option"
  sat_angle :: "real option"

record pin =
  pin_sxAt :: "point option"
  pin_at_angle :: "real option"
  pin_sxNumber :: "string option"
  pin_pinNumber :: "string option"

datatype pins_field = PinsArray "pin list" | PinsSingle pin

record sub_symbol =
  sub_pins :: "pins_field option"

record lib_symbol =
  lib_libraryId :: "string option"
  lib_pins :: "pins_field option"
  lib_subSymbols :: "sub_symbol list option"

record sch_symbol =
  sym_uuid :: "string option"
  sym_libraryId :: "string option"
  sym_at :: "sym_at option"
  sym_properties :: "property list"

record kicad_sch =
  sch_symbols :: "sch_symbol list"
  sch_libSymbols :: "lib_symbol list option"

section \<open>The output store and the shared context\<close>

record source_component =
  sc_source_component_id :: string
  sc_name :: string
  sc_ftype :: string
  sc_manufacturer_part_number :: "string option"

record source_port =
  sp_source_port_id :: string
  sp_source_component_id :: string
  sp_name :: string
  sp_pin_number :: "int option"

record source_trace =
  st_connected_source_port_ids :: "string list"
  st_connected_source_net_ids :: "string list"
  st_display_name :: string

record schematic_component =
  scc_schematic_component_id :: string
  scc_source_component_id :: string
  scc_center :: point
  scc_size :: "real \<times> real"
  scc_symbol_name :: "string option"

record schematic_port =
  scp_schematic_component_id :: string
  scp_center :: point
  scp_facing_direction :: direction
  scp_pin_number :: "string option"

record pcb_board =
  brd_outline :: "point list"
  brd_width :: real
  brd_height :: real

record pcb_silkscreen_path =
  ssp_pcb_component_id :: string
  ssp_layer :: string
  ssp_route :: "point list"
  ssp_stroke_width :: real

record pcb_silkscreen_text =
  sst_pcb_component_id :: string
  sst_text :: string
  sst_anchor_position :: point
  sst_layer :: string
  sst_font_size :: real
  sst_font :: string

text \<open>
  An SMT pad is a rectangle (centre, width, height, optional corner radius), a circle
  (centre, width, height, radius) or a polygon.
\<close>

datatype smtpad_shape =
    SmtRect real real real real "real option"
  | SmtCircle real real real real real
  | SmtPolygon "point list"

record pcb_smtpad =
  smt_pcb_component_id :: string
  smt_layer :: "string option"
  smt_port_hints :: "string option list"
  smt_shape :: smtpad_shape

text \<open>
  A plated hole: \<^verbatim>\<open>circle\<close> (hole diameter, outer diameter), \<^verbatim>\<open>pill\<close> and
  \<^verbatim>\<open>pill_hole_with_rect_pad\<close> (hole width and height, outer width and height), or a
  record with no shape fields when the pad shape is none of those handled.
\<close>

datatype plated_hole_shape =
    PhCircle real real
  | PhPill real real real real
  | PhRectPad real real real real
  | PhUnshaped

record pcb_plated_hole =
  ph_pcb_component_id :: string
  ph_x :: real
  ph_y :: real
  ph_port_hints :: "string option list"
  ph_shape :: plated_hole_shape

record pcb_hole =
  hole_x :: real
  hole_y :: real
  hole_diameter :: pad_drill

record pcb_port =
  pp_pcb_component_id :: string
  pp_source_port_id :: string
  pp_x :: real
  pp_y :: real
  pp_layers :: "string list"

record pcb_via =
  pv_x :: real
  pv_y :: real
  pv_outer_diameter :: real
  pv_hole_diameter :: real
  pv_layers :: "string \<times> string"

record pcb_copper_pour =
  cp_layer :: string
  cp_net_name :: sexp
  cp_points :: "point list"

text \<open>
  The output store: one table per record kind, in insertion order. \<^verbatim>\<open>insert\<close> appends a
  record, \<^verbatim>\<open>list\<close> reads the table.
\<close>

record db =
  db_source_component :: "source_component list"
  db_source_port :: "source_port list"
  db_source_trace :: "source_trace list"
  db_schematic_component :: "schematic_component list"
  db_schematic_port :: "schematic_port list"
  db_pcb_board :: "pcb_board list"
  db_pcb_silkscreen_path :: "pcb_silkscreen_path list"
  db_pcb_silkscreen_text :: "pcb_silkscreen_text list"
  db_pcb_smtpad :: "pcb_smtpad list"
  db_pcb_plated_hole :: "pcb_plated_hole list"
  db_pcb_hole :: "pcb_hole list"
  db_pcb_port :: "pcb_port list"
  db_pcb_via :: "pcb_via list"
  db_pcb_copper_pour :: "pcb_copper_pour list"

record stats =
  stats_components :: "int option"
  stats_pads :: "int option"
  stats_traces :: "int option"
  stats_vias :: "int option"
  stats_copper_pours :: "int option"

record ctx =
  kicadSch :: "kicad_sch option"
  kicadPcb :: "kicad_pcb option"
  k2cMatSch :: "matrix option"
  k2cMatPcb :: "matrix option"
  netNumToName :: "(int \<rightharpoonup> string) option"
  symbolUuidToComponentId :: "(string \<rightharpoonup> string) option"
  footprintUuidToComponentId :: "(string \<rightharpoonup> string) option"
  footprintUuidToSourceComponentId :: "(string \<rightharpoonup> string) option"
  ctx_stats :: "stats option"
  ctx_warnings :: "string list option"
  ctx_db :: db

text \<open>\<^verbatim>\<open>stats.n = (stats.n || 0) + 1\<close>\<close>

definition bump :: "int option \<Rightarrow> int option" where
  "bump c = Some (int_or c 0 + 1)"

text \<open>The state of a stage: the shared context and the \<^verbatim>\<open>finished\<close> flag.\<close>

record stage =
  stage_ctx :: ctx
  finished :: bool

section \<open>CollectNetsStage\<close>

definition net_netNum :: "net_entry \<Rightarrow> int" where
  "net_netNum net =
     (case nullish (net_sx_id net) (nullish (net_number net) (net_ordinal net)) of
        None \<Rightarrow> 0
      | Some n \<Rightarrow> n)"

definition net_netName :: "net_entry \<Rightarrow> string" where
  "net_netName net =
     (case nullish (net_sx_name net) (net_name net) of
        None \<Rightarrow> ''Net-'' @ show_int (net_netNum net)
      | Some n \<Rightarrow> n)"

definition collect_nets_loop :: "net_entry list \<Rightarrow> (int \<rightharpoonup> string) \<Rightarrow> (int \<rightharpoonup> string)" where
  "collect_nets_loop netArray tbl =
     foldl (\<lambda>t net. t(net_netNum net \<mapsto> net_netName net)) tbl netArray"

definition CollectNetsStage_step :: "stage \<Rightarrow> stage" where
  "CollectNetsStage_step s =
     (let c = stage_ctx s in
      case (kicadPcb c, netNumToName c) of
        (Some pcb, Some tbl) \<Rightarrow>
          (let tbl1 = collect_nets_loop (pcb_nets pcb) tbl;
               tbl2 = (if tbl1 0 = None then tbl1(0 \<mapsto> []) else tbl1)
           in s\<lparr>stage_ctx := c\<lparr>netNumToName := Some tbl2\<rparr>, finished := True\<rparr>)
      | _ \<Rightarrow> s\<lparr>finished := True\<rparr>)"

section \<open>CollectSourceTracesStage\<close>

record traces_stage = stage +
  processedNets :: "int set"

text \<open>An element of the per-net pad lists: \<^verbatim>\<open>{componentId, padNumber, sourcePortId}\<close>.\<close>

record pad_ref =
  pr_componentId :: string
  pr_padNumber :: string
  pr_sourcePortId :: string

definition js_net_truthy :: "js_net option \<Rightarrow> bool" where
  "js_net_truthy v =
     (case v of
        None \<Rightarrow> False
      | Some (NetNumber n) \<Rightarrow> n \<noteq> 0
      | Some (NetObject i n ord) \<Rightarrow> True
      | Some (NetString str) \<Rightarrow> str \<noteq> [])"

definition getPadNet :: "pad \<Rightarrow> int option" where
  "getPadNet pad =
     (let net = (if js_net_truthy (pad_sxNet pad) then pad_sxNet pad else pad_net pad) in
      if \<not> js_net_truthy net then None
      else case net of
             Some (NetNumber n) \<Rightarrow> Some n
           | Some (NetObject i n ord) \<Rightarrow> nullish i (nullish n ord)
           | _ \<Rightarrow> None)"

text \<open>\<^verbatim>\<open>footprint.uuid?.value || footprint.tstamp?.value\<close>\<close>

definition footprintUuid :: "footprint \<Rightarrow> string option" where
  "footprintUuid fp = (if str_truthy (fp_uuid fp) then fp_uuid fp else fp_tstamp fp)"

definition getFootprintReference :: "footprint \<Rightarrow> string option" where
  "getFootprintReference fp =
     (case find (\<lambda>p. prop_key p = Some ''Reference'' \<or> prop_name p = Some ''Reference'')
             (fp_properties fp) of
        Some p \<Rightarrow> prop_value p
      | None \<Rightarrow>
          (case find (\<lambda>t. fpt_type t = Some ''reference'') (fp_texts fp) of
             Some t \<Rightarrow> fpt_text t
           | None \<Rightarrow> None))"

definition sourcePortId_of :: "string \<Rightarrow> string \<Rightarrow> string" where
  "sourcePortId_of componentId padNumber = componentId @ ''_port_'' @ padNumber"

text \<open>
  The record is inserted with its \<^verbatim>\<open>source_port_id\<close> given, so the table can be searched
  for it afterwards.
\<close>

definition getOrCreateSourcePort :: "ctx \<Rightarrow> string \<Rightarrow> string \<Rightarrow> footprint \<Rightarrow> string \<times> ctx" where
  "getOrCreateSourcePort c componentId padNumber fp =
     (let sourcePortId = sourcePortId_of componentId padNumber;
          existingPort = find (\<lambda>sp. sp_source_port_id sp = sourcePortId) (db_source_port (ctx_db c))
      in case existingPort of
           Some sp \<Rightarrow> (sourcePortId, c)
         | None \<Rightarrow>
             (let uuid = footprintUuid fp;
                  sourceComponentId =
                    (case (uuid, footprintUuidToSourceComponentId c) of
                       (Some u, Some m) \<Rightarrow> if u = [] then None else m u
                     | _ \<Rightarrow> None);
                  reference = getFootprintReference fp;
                  port = \<lparr> sp_source_port_id = sourcePortId,
                           sp_source_component_id = str_or sourceComponentId componentId,
                           sp_name = str_or reference ''U'' @ ''.'' @ padNumber,
                           sp_pin_number =
                             (case parseInt padNumber of
                                None \<Rightarrow> None
                              | Some n \<Rightarrow> if n = 0 then None else Some n) \<rparr>;
                  d = ctx_db c
              in (sourcePortId, c\<lparr>ctx_db := d\<lparr>db_source_port := db_source_port d @ [port]\<rparr>\<rparr>)))"

text \<open>
  The \<^verbatim>\<open>Map\<close> from net number to pad list keeps its keys in the order of their first
  insertion: an association list. A new key is added at the end with an empty list, then
  the pad is pushed onto the list of its key.
\<close>

fun netToPads_push :: "int \<Rightarrow> pad_ref \<Rightarrow> (int \<times> pad_ref list) list \<Rightarrow> (int \<times> pad_ref list) list" where
  "netToPads_push n r [] = [(n, [r])]"
| "netToPads_push n r ((k, rs) # m) =
     (if k = n then (k, rs @ [r]) # m else (k, rs) # netToPads_push n r m)"

definition process_pad_net ::
  "string \<Rightarrow> footprint \<Rightarrow> ctx \<times> (int \<times> pad_ref list) list \<Rightarrow> pad \<Rightarrow> ctx \<times> (int \<times> pad_ref list) list" where
  "process_pad_net componentId fp acc pad =
     (let padNumber = map_option pad_number_toString (pad_number pad) in
      case padNumber of
        None \<Rightarrow> acc
      | Some pn \<Rightarrow>
          if pn = [] then acc
          else
            (case getPadNet pad of
               None \<Rightarrow> acc
             | Some netNum \<Rightarrow>
                 if netNum = 0 then acc
                 else
                   (let (sourcePortId, c') = getOrCreateSourcePort (fst acc) componentId pn fp
                    in (c', netToPads_push netNum
                              \<lparr> pr_componentId = componentId, pr_padNumber = pn,
                                pr_sourcePortId = sourcePortId \<rparr> (snd acc)))))"

definition processFootprintPads ::
  "ctx \<times> (int \<times> pad_ref list) list \<Rightarrow> footprint \<Rightarrow> ctx \<times> (int \<times> pad_ref list) list" where
  "processFootprintPads acc fp =
     (case footprintUuid fp of
        None \<Rightarrow> acc
      | Some uuid \<Rightarrow>
          if uuid = [] then acc
          else
            (case (case footprintUuidToComponentId (fst acc) of None \<Rightarrow> None | Some m \<Rightarrow> m uuid) of
               None \<Rightarrow> acc
             | Some componentId \<Rightarrow>
                 if componentId = [] then acc
                 else foldl (process_pad_net componentId fp) acc (fp_pads fp)))"

definition source_trace_record :: "ctx \<Rightarrow> int \<Rightarrow> pad_ref list \<Rightarrow> source_trace" where
  "source_trace_record c netNum pads =
     \<lparr> st_connected_source_port_ids = map pr_sourcePortId pads,
       st_connected_source_net_ids = [],
       st_display_name =
         str_or (case netNumToName c of None \<Rightarrow> None | Some m \<Rightarrow> m netNum)
           (''Net-'' @ show_int netNum) \<rparr>"

definition createSourceTrace :: "ctx \<Rightarrow> int \<Rightarrow> pad_ref list \<Rightarrow> ctx" where
  "createSourceTrace c netNum pads =
     (let d = ctx_db c;
          c1 = c\<lparr>ctx_db := d\<lparr>db_source_trace := db_source_trace d @ [source_trace_record c netNum pads]\<rparr>\<rparr>
      in case ctx_stats c1 of
           None \<Rightarrow> c1
         | Some st \<Rightarrow> c1\<lparr>ctx_stats := Some (st\<lparr>stats_traces := bump (stats_traces st)\<rparr>)\<rparr>)"

definition trace_net :: "ctx \<times> int set \<Rightarrow> int \<times> pad_ref list \<Rightarrow> ctx \<times> int set" where
  "trace_net acc entry =
     (case entry of (netNum, pads) \<Rightarrow>
        if length pads < 2 \<or> netNum \<in> snd acc then acc
        else (createSourceTrace (fst acc) netNum pads, insert netNum (snd acc)))"

definition CollectSourceTracesStage_step :: "traces_stage \<Rightarrow> traces_stage" where
  "CollectSourceTracesStage_step s =
     (let c = stage_ctx s in
      case (kicadPcb c, netNumToName c) of
        (Some pcb, Some tbl) \<Rightarrow>
          (let (c1, netToPads) = foldl processFootprintPads (c, []) (pcb_footprints pcb);
               (c2, processed) = foldl trace_net (c1, processedNets s) netToPads
           in s\<lparr>stage_ctx := c2, processedNets := processed, finished := True\<rparr>)
      | _ \<Rightarrow> s\<lparr>finished := True\<rparr>)"

section \<open>CollectGraphicsStage\<close>

subsection \<open>Arcs through three points\<close>

text \<open>
  The determinant \<^verbatim>\<open>d\<close> of \<^verbatim>\<open>calculateArcCenter\<close>, the centre \<^verbatim>\<open>(ux, uy)\<close> and the
  radius; \<^verbatim>\<open>x ** 2\<close> is the rounded product of \<open>x\<close> with itself.
\<close>

definition arc_determinant :: "point \<Rightarrow> point \<Rightarrow> point \<Rightarrow> real" where
  "arc_determinant p1 p2 p3 =
     (let ax = fst p1; ay = snd p1; bx = fst p2; by = snd p2; cx = fst p3; cy = snd p3
      in fmul 2 (fadd (fadd (fmul ax (fsub by cy)) (fmul bx (fsub cy ay))) (fmul cx (fsub ay by))))"

definition arc_center :: "point \<Rightarrow> point \<Rightarrow> point \<Rightarrow> point" where
  "arc_center p1 p2 p3 =
     (let ax = fst p1; ay = snd p1; bx = fst p2; by = snd p2; cx = fst p3; cy = snd p3;
          d = arc_determinant p1 p2 p3;
          ux = fdiv (fadd (fadd (fmul (fadd (fmul ax ax) (fmul ay ay)) (fsub by cy))
                                (fmul (fadd (fmul bx bx) (fmul by by)) (fsub cy ay)))
                          (fmul (fadd (fmul cx cx) (fmul cy cy)) (fsub ay by))) d;
          uy = fdiv (fadd (fadd (fmul (fadd (fmul ax ax) (fmul ay ay)) (fsub cx bx))
                                (fmul (fadd (fmul bx bx) (fmul by by)) (fsub ax cx)))
                          (fmul (fadd (fmul cx cx) (fmul cy cy)) (fsub bx ax))) d
      in (ux, uy))"

definition arc_radius :: "point \<Rightarrow> point \<Rightarrow> real" where
  "arc_radius p1 center =
     (let dx = fsub (fst p1) (fst center); dy = fsub (snd p1) (snd center)
      in Math_sqrt (fadd (fmul dx dx) (fmul dy dy)))"

definition calculateArcCenter :: "point \<Rightarrow> point \<Rightarrow> point \<Rightarrow> point option \<times> real" where
  "calculateArcCenter p1 p2 p3 =
     (if \<bar>arc_determinant p1 p2 p3\<bar> < fl (1 / 10 ^ 10) then (None, 0)
      else (let center = arc_center p1 p2 p3 in (Some center, arc_radius p1 center)))"

definition arc_angleRange :: "real \<Rightarrow> real \<Rightarrow> real \<Rightarrow> real" where
  "arc_angleRange startAngle midAngle endAngle =
     (let angleRange = fsub endAngle startAngle;
          midFromStart = fsub midAngle startAngle;
          endFromStart = fsub endAngle startAngle;
          normalizeMid = fsub (js_rem (fadd midFromStart Math_PI) (fmul 2 Math_PI)) Math_PI;
          normalizeEnd = fsub (js_rem (fadd endFromStart Math_PI) (fmul 2 Math_PI)) Math_PI
      in if (normalizeEnd > 0 \<and> (normalizeMid < 0 \<or> normalizeMid > normalizeEnd)) \<or>
            (normalizeEnd < 0 \<and> (normalizeMid > 0 \<or> normalizeMid < normalizeEnd))
         then fsub angleRange (fmul (fmul (sgn angleRange) 2) Math_PI)
         else angleRange)"

text \<open>
  The point that round \<open>i\<close> of the loop over the samples pushes, and the angle of a point
  as seen from the centre.
\<close>

definition arc_sample :: "point \<Rightarrow> real \<Rightarrow> real \<Rightarrow> real \<Rightarrow> int \<Rightarrow> int \<Rightarrow> point" where
  "arc_sample center radius startAngle angleRange numSegments i =
     (let t = fdiv (of_int i) (of_int numSegments);
          angle = fadd startAngle (fmul angleRange t)
      in (fadd (fst center) (fmul radius (Math_cos angle)),
          fadd (snd center) (fmul radius (Math_sin angle))))"

definition arc_angle :: "point \<Rightarrow> point \<Rightarrow> real" where
  "arc_angle p center = Math_atan2 (fsub (snd p) (snd center)) (fsub (fst p) (fst center))"

text \<open>
  The loop \<^verbatim>\<open>for (let i = 1; i < numSegments; i++)\<close> runs over \<open>[1..numSegments - 1]\<close>,
  then the end point is pushed.
\<close>

definition convertArcToPoints :: "point \<Rightarrow> point \<Rightarrow> point \<Rightarrow> int \<Rightarrow> point list" where
  "convertArcToPoints start mid end numSegments =
     (case calculateArcCenter start mid end of
        (None, radius) \<Rightarrow> [start, end]
      | (Some center, radius) \<Rightarrow>
          if radius = 0 then [start, end]
          else
            (let startAngle = arc_angle start center;
                 endAngle = arc_angle end center;
                 midAngle = arc_angle mid center;
                 angleRange = arc_angleRange startAngle midAngle endAngle
             in map (arc_sample center radius startAngle angleRange numSegments)
                  [1..numSegments - 1]
                @ [end]))"

subsection \<open>The board outline\<close>

definition pointsEqual :: "point \<Rightarrow> point \<Rightarrow> bool" where
  "pointsEqual p1 p2 =
     (let epsilon = fl (1 / 1000)
      in \<bar>fsub (fst p1) (fst p2)\<bar> < epsilon \<and> \<bar>fsub (snd p1) (snd p2)\<bar> < epsilon)"

definition pointsEqualKicad :: "point \<Rightarrow> point \<Rightarrow> bool" where
  "pointsEqualKicad p1 p2 =
     (let epsilon = fl (1 / 1000)
      in \<bar>fsub (fst p1) (fst p2)\<bar> < epsilon \<and> \<bar>fsub (snd p1) (snd p2)\<bar> < epsilon)"

text \<open>\<^verbatim>\<open>findIndex\<close>: the first index whose element passes the test, \<open>None\<close> for \<open>-1\<close>.\<close>

fun findIndex :: "('a \<Rightarrow> bool) \<Rightarrow> 'a list \<Rightarrow> nat option" where
  "findIndex P [] = None"
| "findIndex P (x # xs) = (if P x then Some 0 else map_option Suc (findIndex P xs))"

lemma findIndex_less: "findIndex P xs = Some i \<Longrightarrow> i < length xs"
  by (induction xs arbitrary: i) (auto split: if_splits)

text \<open>\<^verbatim>\<open>xs.splice(i, 1)\<close> leaves the list without its element \<open>i\<close>.\<close>

definition splice_out :: "nat \<Rightarrow> 'a list \<Rightarrow> 'a list" where
  "splice_out i xs = take i xs @ drop (Suc i) xs"

text \<open>
  A segment is the pair of its start and its end. The \<^verbatim>\<open>while\<close> loop of
  \<^verbatim>\<open>createBoardOutline\<close> moves one segment per round from the remaining ones to the
  ordered ones; the test for equal points is a parameter, which the stage sets to
  \<^const>\<open>pointsEqualKicad\<close>.
\<close>

function chain_loop :: "('p \<Rightarrow> 'p \<Rightarrow> bool) \<Rightarrow> ('p \<times> 'p) list \<Rightarrow> ('p \<times> 'p) list \<Rightarrow> ('p \<times> 'p) list" where
  "chain_loop eq orderedSegments remainingSegments =
     (if remainingSegments = [] then orderedSegments
      else
        (let lastEnd = snd (last orderedSegments) in
         case findIndex (\<lambda>seg. eq (fst seg) lastEnd) remainingSegments of
           Some i \<Rightarrow>
             chain_loop eq (orderedSegments @ [remainingSegments ! i]) (splice_out i remainingSegments)
         | None \<Rightarrow>
             (case findIndex (\<lambda>seg. eq (snd seg) lastEnd) remainingSegments of
                Some i \<Rightarrow>
                  chain_loop eq
                    (orderedSegments @ [(snd (remainingSegments ! i), fst (remainingSegments ! i))])
                    (splice_out i remainingSegments)
              | None \<Rightarrow>
                  chain_loop eq (orderedSegments @ [hd remainingSegments]) (tl remainingSegments))))"
  by pat_completeness auto
termination
  by (relation "measure (\<lambda>(eq, orderedSegments, remainingSegments). length remainingSegments)")
     (auto simp: splice_out_def dest!: findIndex_less)

declare chain_loop.simps [simp del]

definition chain_segments :: "('p \<Rightarrow> 'p \<Rightarrow> bool) \<Rightarrow> ('p \<times> 'p) list \<Rightarrow> ('p \<times> 'p) list" where
  "chain_segments eq segments =
     (case segments of [] \<Rightarrow> [] | first # remaining \<Rightarrow> chain_loop eq [first] remaining)"

definition outline_start_points :: "matrix \<Rightarrow> (point \<times> point) list \<Rightarrow> point list" where
  "outline_start_points m orderedSegments =
     foldl (\<lambda>points segment.
              let startPos = applyToPoint m (fst segment)
              in if points = [] \<or> \<not> pointsEqual (last points) startPos then points @ [startPos]
                 else points)
       [] orderedSegments"

definition outline_points :: "matrix \<Rightarrow> (point \<times> point) list \<Rightarrow> point list" where
  "outline_points m orderedSegments =
     (let points = outline_start_points m orderedSegments in
      if orderedSegments \<noteq> [] then
        (let endPos = applyToPoint m (snd (last orderedSegments)) in
         if points \<noteq> [] \<and> \<not> pointsEqual (hd points) endPos then points @ [endPos] else points)
      else points)"

definition calculateWidth :: "point list \<Rightarrow> real" where
  "calculateWidth points =
     (if points = [] then 0 else fsub (Max (set (map fst points))) (Min (set (map fst points))))"

definition calculateHeight :: "point list \<Rightarrow> real" where
  "calculateHeight points =
     (if points = [] then 0 else fsub (Max (set (map snd points))) (Min (set (map snd points))))"

definition line_segment :: "gr_line \<Rightarrow> point \<times> point" where
  "line_segment line =
     (case grl_start line of None \<Rightarrow> (0, 0) | Some p \<Rightarrow> p,
      case grl_end line of None \<Rightarrow> (0, 0) | Some p \<Rightarrow> p)"

definition board_outline_points :: "matrix \<Rightarrow> gr_line list \<Rightarrow> point list" where
  "board_outline_points m lines =
     outline_points m (chain_segments pointsEqualKicad (map line_segment lines))"

definition createBoardOutline :: "ctx \<Rightarrow> gr_line list \<Rightarrow> ctx" where
  "createBoardOutline c lines =
     (case k2cMatPcb c of
        None \<Rightarrow> c
      | Some m \<Rightarrow>
          (let points = board_outline_points m lines;
               d = ctx_db c
           in case db_pcb_board d of
                existingBoard # rest \<Rightarrow>
                  c\<lparr>ctx_db := d\<lparr>db_pcb_board :=
                        existingBoard\<lparr> brd_outline := points, brd_width := calculateWidth points,
                                        brd_height := calculateHeight points \<rparr> # rest\<rparr>\<rparr>
              | [] \<Rightarrow>
                  c\<lparr>ctx_db := d\<lparr>db_pcb_board :=
                        [\<lparr> brd_outline = points, brd_width = calculateWidth points,
                           brd_height = calculateHeight points \<rparr>]\<rparr>\<rparr>))"

subsection \<open>The rest of the graphics stage\<close>

text \<open>\<^verbatim>\<open>typeof layer === "string" ? [layer] : layer?.names || []\<close>\<close>

definition layer_names :: "layer_ref option \<Rightarrow> string list" where
  "layer_names layer =
     (case layer of
        None \<Rightarrow> []
      | Some (LayerString s) \<Rightarrow> [s]
      | Some (LayerObject names sx_names) \<Rightarrow> (case names of None \<Rightarrow> [] | Some ns \<Rightarrow> ns))"

text \<open>\<^verbatim>\<open>x._sxLayer?._names || []\<close>\<close>

definition layer_sx_names :: "layer_ref option \<Rightarrow> string list" where
  "layer_sx_names layer =
     (case layer of
        Some (LayerObject names sx_names) \<Rightarrow> (case sx_names of None \<Rightarrow> [] | Some ns \<Rightarrow> ns)
      | _ \<Rightarrow> [])"

definition mapLayer :: "layer_ref option \<Rightarrow> string" where
  "mapLayer kicadLayer =
     (let layerStr =
            (case kicadLayer of
               None \<Rightarrow> []
             | Some (LayerString s) \<Rightarrow> s
             | Some (LayerObject names sx_names) \<Rightarrow>
                 (case names of None \<Rightarrow> [] | Some ns \<Rightarrow> join_sp ns))
      in if str_includes layerStr ''B.'' \<or> str_includes layerStr ''Back'' then ''bottom''
         else ''top'')"

definition point_or_origin :: "point option \<Rightarrow> point" where
  "point_or_origin p = (case p of None \<Rightarrow> (0, 0) | Some q \<Rightarrow> q)"

definition createSilkscreenPath :: "ctx \<Rightarrow> gr_line \<Rightarrow> ctx" where
  "createSilkscreenPath c line =
     (case k2cMatPcb c of
        None \<Rightarrow> c
      | Some m \<Rightarrow>
          (let startPos = applyToPoint m (point_or_origin (grl_start line));
               endPos = applyToPoint m (point_or_origin (grl_end line));
               layer = mapLayer (grl_layer line);
               strokeWidth = num_or (grl_width line) (fl (15 / 100));
               d = ctx_db c
           in c\<lparr>ctx_db := d\<lparr>db_pcb_silkscreen_path := db_pcb_silkscreen_path d @
                 [\<lparr> ssp_pcb_component_id = [], ssp_layer = layer, ssp_route = [startPos, endPos],
                    ssp_stroke_width = strokeWidth \<rparr>]\<rparr>\<rparr>))"

definition bump_pads :: "ctx \<Rightarrow> ctx" where
  "bump_pads c =
     (case ctx_stats c of
        None \<Rightarrow> c
      | Some st \<Rightarrow> c\<lparr>ctx_stats := Some (st\<lparr>stats_pads := bump (stats_pads st)\<rparr>)\<rparr>)"

definition insert_smtpad :: "ctx \<Rightarrow> pcb_smtpad \<Rightarrow> ctx" where
  "insert_smtpad c p = (let d = ctx_db c in c\<lparr>ctx_db := d\<lparr>db_pcb_smtpad := db_pcb_smtpad d @ [p]\<rparr>\<rparr>)"

text \<open>\<^verbatim>\<open>{x: v?._x ?? 0, y: v?._y ?? 0}\<close>\<close>

definition xy_or_zero :: "(real option \<times> real option) option \<Rightarrow> point" where
  "xy_or_zero v =
     (case v of
        None \<Rightarrow> (0, 0)
      | Some (vx, vy) \<Rightarrow> (case vx of None \<Rightarrow> 0 | Some a \<Rightarrow> a, case vy of None \<Rightarrow> 0 | Some b \<Rightarrow> b))"

definition processRectangle :: "ctx \<Rightarrow> gr_rect \<Rightarrow> ctx" where
  "processRectangle c rect =
     (case k2cMatPcb c of
        None \<Rightarrow> c
      | Some m \<Rightarrow>
          (let start = xy_or_zero (grr_start rect);
               end = xy_or_zero (grr_end rect);
               layerStr = join_sp (layer_sx_names (grr_layer rect));
               isFilled =
                 (case grr_fill rect of
                    None \<Rightarrow> False
                  | Some f \<Rightarrow> fill_isFilled f = Some True \<or> str_includes (fill_String f) ''fill yes'');
               isCopperLayer = str_includes layerStr ''.Cu''
           in if \<not> isFilled \<or> \<not> isCopperLayer then c
              else
                (let centerKicad = (fdiv (fadd (fst start) (fst end)) 2,
                                    fdiv (fadd (snd start) (snd end)) 2);
                     widthKicad = \<bar>fsub (fst end) (fst start)\<bar>;
                     heightKicad = \<bar>fsub (snd end) (snd start)\<bar>;
                     centerCJ = applyToPoint m centerKicad;
                     layer = mapLayer (grr_layer rect)
                 in bump_pads (insert_smtpad c
                      \<lparr> smt_pcb_component_id = [], smt_layer = Some layer, smt_port_hints = [],
                        smt_shape = SmtRect (fst centerCJ) (snd centerCJ) widthKicad heightKicad None \<rparr>))))"

definition poly_points :: "poly_pt list \<Rightarrow> point list" where
  "poly_points ptsData =
     concat (map (\<lambda>pt. case pt of
                          PtXY px py \<Rightarrow> [(px, py)]
                        | PtArc start mid end \<Rightarrow> convertArcToPoints start mid end 8
                        | PtOther \<Rightarrow> [])
                 ptsData)"

definition processPolygon :: "ctx \<Rightarrow> gr_poly \<Rightarrow> ctx" where
  "processPolygon c poly =
     (case k2cMatPcb c of
        None \<Rightarrow> c
      | Some m \<Rightarrow>
          (let layerStr = join_sp (layer_sx_names (grp_layer poly));
               isFilled = (case grp_fill poly of None \<Rightarrow> False | Some f \<Rightarrow> fill_filled f = Some True);
               isCopperLayer = str_includes layerStr ''.Cu''
           in if \<not> isFilled \<or> \<not> isCopperLayer then c
              else
                (let points = poly_points (grp_pts poly) in
                 if length points < 3 then c
                 else
                   (let transformedPoints = map (applyToPoint m) points;
                        layer = mapLayer (grp_layer poly)
                    in bump_pads (insert_smtpad c
                         \<lparr> smt_pcb_component_id = [], smt_layer = Some layer, smt_port_hints = [],
                           smt_shape = SmtPolygon transformedPoints \<rparr>)))))"

definition createSilkscreenText :: "ctx \<Rightarrow> gr_text \<Rightarrow> ctx" where
  "createSilkscreenText c text =
     (case k2cMatPcb c of
        None \<Rightarrow> c
      | Some m \<Rightarrow>
          (let textAt = (case grt_at text of None \<Rightarrow> grt_sxPosition text | Some a \<Rightarrow> Some a);
               pos = applyToPoint m (xy_or_zero textAt);
               layer = mapLayer (grt_layer text);
               kicadFontSize = num_or (grt_sx_font_height text) (num_or (grt_font_size_y text) 1);
               fontSize = fmul kicadFontSize (3 / 2);
               d = ctx_db c
           in c\<lparr>ctx_db := d\<lparr>db_pcb_silkscreen_text := db_pcb_silkscreen_text d @
                 [\<lparr> sst_pcb_component_id = [],
                    sst_text = str_or (grt_text text) (str_or (grt_sx_text text) []),
                    sst_anchor_position = pos, sst_layer = layer, sst_font_size = fontSize,
                    sst_font = ''tscircuit2024'' \<rparr>]\<rparr>\<rparr>))"

definition is_edge_cut :: "gr_line \<Rightarrow> bool" where
  "is_edge_cut line = str_includes (join_sp (layer_names (grl_layer line))) ''Edge.Cuts''"

definition is_silk :: "gr_line \<Rightarrow> bool" where
  "is_silk line =
     (\<not> is_edge_cut line \<and> str_includes (join_sp (layer_names (grl_layer line))) ''SilkS'')"

definition text_layer_shown :: "gr_text \<Rightarrow> bool" where
  "text_layer_shown text =
     list_ex (\<lambda>name. str_includes name ''SilkS'' \<or> str_includes name ''.Cu'' \<or> str_includes name ''Fab'')
       (layer_names (grt_layer text))"

definition CollectGraphicsStage_step :: "stage \<Rightarrow> stage" where
  "CollectGraphicsStage_step s =
     (let c = stage_ctx s in
      case (kicadPcb c, k2cMatPcb c) of
        (Some pcb, Some m) \<Rightarrow>
          (let edgeCutLines = filter is_edge_cut (pcb_graphicLines pcb);
               silkLines = filter is_silk (pcb_graphicLines pcb);
               c1 = (if length edgeCutLines > 0 then createBoardOutline c edgeCutLines else c);
               c2 = foldl createSilkscreenPath c1 silkLines;
               c3 = foldl processRectangle c2 (pcb_graphicRects pcb);
               c4 = foldl processPolygon c3 (pcb_graphicPolys pcb);
               c5 = foldl createSilkscreenText c4 (filter text_layer_shown (pcb_graphicTexts pcb))
           in s\<lparr>stage_ctx := c5, finished := True\<rparr>)
      | _ \<Rightarrow> s\<lparr>finished := True\<rparr>)"

section \<open>CollectViasStage\<close>

definition via_mapLayer :: "string \<Rightarrow> string" where
  "via_mapLayer kicadLayer =
     (if str_includes kicadLayer ''B.Cu'' \<or> str_includes kicadLayer ''Back'' \<or>
         str_includes kicadLayer ''B_Cu''
      then ''bottom'' else ''top'')"

definition via_layer_span :: "via_layers option \<Rightarrow> string \<times> string" where
  "via_layer_span layers =
     (case layers of
        None \<Rightarrow> (''top'', ''bottom'')
      | Some l \<Rightarrow>
          (let layersArray =
                 (case l of
                    ViaLayersArray xs \<Rightarrow> xs
                  | ViaLayersObject xs \<Rightarrow> (case xs of None \<Rightarrow> [] | Some ys \<Rightarrow> ys))
           in if length layersArray > 0 then
                (via_mapLayer (hd layersArray),
                 if length layersArray > 1 then via_mapLayer (last layersArray) else ''bottom'')
              else (''top'', ''bottom'')))"

definition processVia :: "ctx \<Rightarrow> via \<Rightarrow> ctx" where
  "processVia c via =
     (case (k2cMatPcb c, netNumToName c) of
        (Some m, Some tbl) \<Rightarrow>
          (let pos = applyToPoint m (point_or_origin (via_at via));
               size = num_or (via_size via) (fl (8 / 10));
               drill = num_or (via_drill via) (fl (4 / 10));
               netNum = int_or (via_net via) 0;
               netName = str_or (tbl netNum) [];
               d = ctx_db c;
               c1 = c\<lparr>ctx_db := d\<lparr>db_pcb_via := db_pcb_via d @
                      [\<lparr> pv_x = fst pos, pv_y = snd pos, pv_outer_diameter = size,
                         pv_hole_diameter = drill, pv_layers = via_layer_span (via_layers via) \<rparr>]\<rparr>\<rparr>
           in case ctx_stats c1 of
                None \<Rightarrow> c1
              | Some st \<Rightarrow> c1\<lparr>ctx_stats := Some (st\<lparr>stats_vias := bump (stats_vias st)\<rparr>)\<rparr>)
      | _ \<Rightarrow> c)"

definition CollectViasStage_step :: "stage \<Rightarrow> stage" where
  "CollectViasStage_step s =
     (let c = stage_ctx s in
      case (kicadPcb c, k2cMatPcb c, netNumToName c) of
        (Some pcb, Some m, Some tbl) \<Rightarrow>
          s\<lparr>stage_ctx := foldl processVia c (pcb_vias pcb), finished := True\<rparr>
      | _ \<Rightarrow> s\<lparr>finished := True\<rparr>)"

section \<open>CollectZonesStage\<close>

text \<open>\<^verbatim>\<open>Array.isArray(child) && child[0] === name\<close>\<close>

definition head_is :: "string \<Rightarrow> sexp \<Rightarrow> bool" where
  "head_is name child =
     (case child of
        SList (SStr h # rest) \<Rightarrow> h = name
      | _ \<Rightarrow> False)"

text \<open>\<^verbatim>\<open>child[i]\<close> of an array, \<open>None\<close> past its end.\<close>

definition sexp_at :: "sexp \<Rightarrow> nat \<Rightarrow> sexp option" where
  "sexp_at child i =
     (case child of
        SList xs \<Rightarrow> (if i < length xs then Some (xs ! i) else None)
      | _ \<Rightarrow> None)"

definition sexp_truthy :: "sexp option \<Rightarrow> bool" where
  "sexp_truthy v =
     (case v of
        None \<Rightarrow> False
      | Some (SStr str) \<Rightarrow> str \<noteq> []
      | Some (SNum n) \<Rightarrow> n \<noteq> 0
      | Some (SList xs) \<Rightarrow> True)"

definition isZoneFilled :: "zone \<Rightarrow> bool" where
  "isZoneFilled zone =
     (case zone_rawChildren zone of
        None \<Rightarrow> False
      | Some children \<Rightarrow>
          (let fillEntry = find (head_is ''fill'') children in
           if (case fillEntry of None \<Rightarrow> False | Some e \<Rightarrow> sexp_at e 1 = Some (SStr ''yes''))
           then True
           else list_ex (head_is ''filled_polygon'') children))"

record zone_data =
  zd_net :: "sexp option"
  zd_netName :: "sexp option"
  zd_layer :: "sexp option"

definition parseZoneData :: "sexp list \<Rightarrow> zone_data" where
  "parseZoneData children =
     foldl (\<lambda>data child.
              if head_is ''net'' child then data\<lparr>zd_net := sexp_at child 1\<rparr>
              else if head_is ''net_name'' child then data\<lparr>zd_netName := sexp_at child 1\<rparr>
              else if head_is ''layer'' child then data\<lparr>zd_layer := sexp_at child 1\<rparr>
              else data)
       \<lparr> zd_net = None, zd_netName = None, zd_layer = None \<rparr> children"

definition xy_item :: "sexp \<Rightarrow> point option" where
  "xy_item item =
     (case item of
        SList (SStr h # SNum px # SNum py # rest) \<Rightarrow> if h = ''xy'' then Some (px, py) else None
      | _ \<Rightarrow> None)"

definition extractPointsFromPolygonEntry :: "sexp \<Rightarrow> point list" where
  "extractPointsFromPolygonEntry polygonEntry =
     (case polygonEntry of
        SList entries \<Rightarrow>
          (case find (head_is ''pts'') entries of
             Some (SList ptsEntry) \<Rightarrow> List.map_filter xy_item (tl ptsEntry)
           | _ \<Rightarrow> [])
      | _ \<Rightarrow> [])"

definition extractMainPolygon :: "sexp list \<Rightarrow> point list" where
  "extractMainPolygon children =
     (case find (head_is ''polygon'') children of
        None \<Rightarrow> []
      | Some polygonEntry \<Rightarrow> extractPointsFromPolygonEntry polygonEntry)"

definition extractFilledPolygons :: "sexp list \<Rightarrow> point list list" where
  "extractFilledPolygons children =
     filter (\<lambda>points. length points > 0)
       (map extractPointsFromPolygonEntry (filter (head_is ''filled_polygon'') children))"

definition zone_mapLayer :: "sexp option \<Rightarrow> string" where
  "zone_mapLayer kicadLayer =
     (let layerStr = (case kicadLayer of Some (SStr str) \<Rightarrow> str | _ \<Rightarrow> []) in
      if str_includes layerStr ''B.Cu'' \<or> str_includes layerStr ''Back'' \<or>
         str_includes layerStr ''Bottom''
      then ''bottom'' else ''top'')"

text \<open>
  The text of a parsed value inside a template literal: a string as it is, an array as the
  texts of its elements with commas between them. The text of a number is left to the
  parameter \<open>num_text\<close>.
\<close>

fun sexp_text :: "(real \<Rightarrow> string) \<Rightarrow> sexp \<Rightarrow> string" where
  "sexp_text num_text (SStr str) = str"
| "sexp_text num_text (SNum n) = num_text n"
| "sexp_text num_text (SList xs) =
     concat (case map (sexp_text num_text) xs of
               [] \<Rightarrow> []
             | t # ts \<Rightarrow> t # map (\<lambda>u. '','' @ u) ts)"

text \<open>\<^verbatim>\<open>netNumToName.get(netNum)\<close> for a key that is any parsed value: only a whole number
  can be a key of the table.\<close>

definition lookup_net :: "(int \<rightharpoonup> string) \<Rightarrow> sexp \<Rightarrow> string option" where
  "lookup_net tbl netNum =
     (case netNum of
        SNum n \<Rightarrow> (if of_int \<lfloor>n\<rfloor> = n then tbl \<lfloor>n\<rfloor> else None)
      | _ \<Rightarrow> None)"

definition insert_copper_pour :: "ctx \<Rightarrow> pcb_copper_pour \<Rightarrow> ctx" where
  "insert_copper_pour c pour =
     (let d = ctx_db c;
          c1 = c\<lparr>ctx_db := d\<lparr>db_pcb_copper_pour := db_pcb_copper_pour d @ [pour]\<rparr>\<rparr>
      in case ctx_stats c1 of
           None \<Rightarrow> c1
         | Some st \<Rightarrow>
             c1\<lparr>ctx_stats := Some (st\<lparr>stats_copper_pours := bump (stats_copper_pours st)\<rparr>)\<rparr>)"

definition createCopperPourFromZone :: "(real \<Rightarrow> string) \<Rightarrow> ctx \<Rightarrow> zone \<Rightarrow> ctx" where
  "createCopperPourFromZone num_text c zone =
     (case (k2cMatPcb c, netNumToName c) of
        (Some m, Some tbl) \<Rightarrow>
          (case zone_rawChildren zone of
             None \<Rightarrow> c
           | Some children \<Rightarrow>
               (let zoneData = parseZoneData children;
                    filled = extractFilledPolygons children;
                    mainPolygon = extractMainPolygon children;
                    filledPolygons =
                      (if length filled = 0 \<and> length mainPolygon > 0 then [mainPolygon] else filled)
                in if length filledPolygons = 0 then
                     (case ctx_warnings c of
                        None \<Rightarrow> c
                      | Some ws \<Rightarrow>
                          c\<lparr>ctx_warnings := Some (ws @
                            [''Zone on layer '' @
                             (if sexp_truthy (zd_layer zoneData)
                              then (case zd_layer zoneData of
                                      Some l \<Rightarrow> sexp_text num_text l
                                    | None \<Rightarrow> ''unknown'')
                              else ''unknown'') @
                             '' has no valid polygon points''])\<rparr>)
                   else
                     (let layer = zone_mapLayer (zd_layer zoneData);
                          netNum = (if sexp_truthy (zd_net zoneData)
                                    then (case zd_net zoneData of Some n \<Rightarrow> n | None \<Rightarrow> SNum 0)
                                    else SNum 0);
                          netName =
                            (case lookup_net tbl netNum of
                               Some name \<Rightarrow>
                                 if name \<noteq> [] then SStr name
                                 else if sexp_truthy (zd_netName zoneData)
                                 then (case zd_netName zoneData of Some v \<Rightarrow> v | None \<Rightarrow> SStr [])
                                 else SStr []
                             | None \<Rightarrow>
                                 if sexp_truthy (zd_netName zoneData)
                                 then (case zd_netName zoneData of Some v \<Rightarrow> v | None \<Rightarrow> SStr [])
                                 else SStr [])
                      in foldl (\<lambda>c' polygonPoints.
                                  insert_copper_pour c'
                                    \<lparr> cp_layer = layer, cp_net_name = netName,
                                      cp_points = map (applyToPoint m) polygonPoints \<rparr>)
                           c filledPolygons)))
      | _ \<Rightarrow> c)"

definition CollectZonesStage_step :: "(real \<Rightarrow> string) \<Rightarrow> stage \<Rightarrow> stage" where
  "CollectZonesStage_step num_text s =
     (let c = stage_ctx s in
      case (kicadPcb c, k2cMatPcb c, netNumToName c) of
        (Some pcb, Some m, Some tbl) \<Rightarrow>
          s\<lparr>stage_ctx := foldl (createCopperPourFromZone num_text) c
                             (filter isZoneFilled (pcb_zones pcb)),
            finished := True\<rparr>
      | _ \<Rightarrow> s\<lparr>finished := True\<rparr>)"

section \<open>CollectLibrarySymbolsStage\<close>

record symbols_stage = stage +
  processedSymbols :: "string set"

definition getProperty :: "sch_symbol \<Rightarrow> string \<Rightarrow> string option" where
  "getProperty symbol propName =
     (case find (\<lambda>p. prop_key p = Some propName) (sym_properties symbol) of
        None \<Rightarrow> None
      | Some p \<Rightarrow> prop_value p)"

definition inferFtype :: "string \<Rightarrow> string \<Rightarrow> string" where
  "inferFtype libId reference =
     (let lower = toLowerCase libId in
      if str_includes lower '':r_'' \<or> startsWith reference ''R'' then ''simple_resistor''
      else if str_includes lower '':c_'' \<or> startsWith reference ''C'' then ''simple_capacitor''
      else if str_includes lower '':l_'' \<or> startsWith reference ''L'' then ''simple_inductor''
      else if str_includes lower '':d_'' \<or> startsWith reference ''D'' then ''simple_diode''
      else if str_includes lower '':led'' \<or> startsWith reference ''LED'' then ''simple_led''
      else if str_includes lower '':q_'' \<or> startsWith reference ''Q'' then ''simple_transistor''
      else ''simple_chip'')"

definition inferSymbolName :: "string \<Rightarrow> string \<Rightarrow> real \<Rightarrow> string option" where
  "inferSymbolName libId reference rotation =
     (let lower = toLowerCase libId;
          direction = direction_str (rotationToDirection rotation)
      in if str_includes lower '':r_'' \<or> (str_includes lower '':r'' \<and> startsWith reference ''R'')
         then Some (''boxresistor_'' @ direction)
         else if str_includes lower '':c_'' \<or> (str_includes lower '':c'' \<and> startsWith reference ''C'')
         then (if str_includes lower ''polarized'' \<or> str_includes lower ''_pol''
               then Some (''capacitor_'' @ direction)
               else Some (''capacitor_'' @ direction))
         else if str_includes lower '':l_'' \<or> (str_includes lower '':l'' \<and> startsWith reference ''L'')
         then Some (''inductor_'' @ direction)
         else if str_includes lower '':d_'' \<or> str_includes lower ''diode'' \<or> startsWith reference ''D''
         then (if str_includes lower ''led'' then Some (''led_'' @ direction)
               else if str_includes lower ''schottky'' then Some (''schottky_diode_'' @ direction)
               else if str_includes lower ''zener'' then Some (''zener_diode_'' @ direction)
               else Some (''diode_'' @ direction))
         else if str_includes lower '':q_'' \<or> startsWith reference ''Q''
         then (if str_includes lower ''npn'' then Some (''npn_bipolar_transistor_'' @ direction)
               else if str_includes lower ''pnp'' then Some (''pnp_bipolar_transistor_'' @ direction)
               else if str_includes lower ''_n_'' \<or> str_includes lower ''nmos''
               then Some (''n_channel_mosfet_transistor_'' @ direction)
               else if str_includes lower ''_p_'' \<or> str_includes lower ''pmos''
               then Some (''p_channel_mosfet_transistor_'' @ direction)
               else Some (''npn_bipolar_transistor_'' @ direction))
         else if str_includes lower ''gnd'' \<or> str_includes lower ''ground'' then None
         else if str_includes lower ''vcc'' \<or> str_includes lower ''vdd'' \<or> str_includes lower ''power''
         then None
         else None)"

definition estimateSize :: "sch_symbol \<Rightarrow> real \<times> real" where
  "estimateSize symbol = (1, 1)"

definition pins_of :: "pins_field option \<Rightarrow> pin list" where
  "pins_of pins =
     (case pins of
        None \<Rightarrow> []
      | Some (PinsArray ps) \<Rightarrow> ps
      | Some (PinsSingle p) \<Rightarrow> [p])"

definition symbol_angle :: "sch_symbol \<Rightarrow> real" where
  "symbol_angle symbol =
     (case sym_at symbol of
        None \<Rightarrow> 0
      | Some a \<Rightarrow> (case sat_angle a of None \<Rightarrow> 0 | Some r \<Rightarrow> r))"

definition inferPinDirection :: "pin \<Rightarrow> real \<Rightarrow> direction" where
  "inferPinDirection pin componentRotation =
     (let pinAngle = (case pin_at_angle pin of None \<Rightarrow> 0 | Some a \<Rightarrow> a);
          totalAngle = fadd pinAngle componentRotation
      in rotationToDirection totalAngle)"

text \<open>The record that one round of the loop over the pins inserts for a pin with a position.\<close>

definition port_record :: "ctx \<Rightarrow> string \<Rightarrow> real \<Rightarrow> pin \<Rightarrow> point \<Rightarrow> schematic_port" where
  "port_record c componentId componentRotation pin pinAt =
     (let rotRad = fdiv (fmul componentRotation Math_PI) 180;
          cosR = Math_cos rotRad;
          sinR = Math_sin rotRad;
          rotatedPinPos = (fsub (fmul (fst pinAt) cosR) (fmul (snd pinAt) sinR),
                           fadd (fmul (fst pinAt) sinR) (fmul (snd pinAt) cosR));
          scaleFactor = \<bar>num_or (map_option m_a (k2cMatSch c)) (fdiv 1 15)\<bar>;
          relativePos = (fmul (fst rotatedPinPos) scaleFactor,
                         fmul (- snd rotatedPinPos) scaleFactor)
      in \<lparr> scp_schematic_component_id = componentId,
           scp_center = relativePos,
           scp_facing_direction = inferPinDirection pin componentRotation,
           scp_pin_number = nullish (pin_sxNumber pin) (pin_pinNumber pin) \<rparr>)"

text \<open>
  \<^verbatim>\<open>ctx.kicadSch?.libSymbols?.symbols?.find(ls => ls.libraryId === libId)\<close>, and the pins
  of the library symbol found: its own, then those of its sub-symbols.
\<close>

definition find_libSymbol :: "ctx \<Rightarrow> sch_symbol \<Rightarrow> lib_symbol option" where
  "find_libSymbol c symbol =
     (case kicadSch c of
        None \<Rightarrow> None
      | Some sch \<Rightarrow>
          (case sch_libSymbols sch of
             None \<Rightarrow> None
           | Some syms \<Rightarrow> find (\<lambda>ls. lib_libraryId ls = sym_libraryId symbol) syms))"

definition allPins_of :: "lib_symbol \<Rightarrow> pin list" where
  "allPins_of ls =
     pins_of (lib_pins ls) @
     (case lib_subSymbols ls of
        None \<Rightarrow> []
      | Some subs \<Rightarrow> concat (map (\<lambda>sub. pins_of (sub_pins sub)) subs))"

definition create_port :: "string \<Rightarrow> real \<Rightarrow> ctx \<Rightarrow> pin \<Rightarrow> ctx" where
  "create_port componentId componentRotation c pin =
     (case pin_sxAt pin of
        None \<Rightarrow> c
      | Some pinAt \<Rightarrow>
          (let d = ctx_db c in
           c\<lparr>ctx_db := d\<lparr>db_schematic_port := db_schematic_port d @
                 [port_record c componentId componentRotation pin pinAt]\<rparr>\<rparr>))"

definition createPorts :: "ctx \<Rightarrow> sch_symbol \<Rightarrow> string \<Rightarrow> ctx" where
  "createPorts c symbol componentId =
     (case find_libSymbol c symbol of
        None \<Rightarrow> c
      | Some ls \<Rightarrow>
          (let allPins = allPins_of ls in
           if length allPins = 0 then c
           else
             (let componentRotation = symbol_angle symbol in
              foldl (create_port componentId componentRotation) c allPins)))"

text \<open>
  The store gives an inserted record its identifier. How it makes the identifier is not part
  of the stage: \<open>new_id\<close> takes the name of the table and the number of records the table
  holds and returns the identifier of the next record.
\<close>

text \<open>
  \<^verbatim>\<open>if (!existingSource) db.source_component.insert({name, ftype, manufacturer_part_number})\<close>:
  the record is inserted without an identifier of its own, so it gets the one the store makes.
\<close>

definition insert_source_component_unless_found ::
  "(string \<Rightarrow> nat \<Rightarrow> string) \<Rightarrow> ctx \<Rightarrow> string \<Rightarrow> string \<Rightarrow> string \<Rightarrow> string option \<Rightarrow> ctx" where
  "insert_source_component_unless_found new_id c sourceComponentId name ftype mpn =
     (let d = ctx_db c;
          existingSource = find (\<lambda>sc. sc_source_component_id sc = sourceComponentId)
                             (db_source_component d)
      in case existingSource of
           Some sc \<Rightarrow> c
         | None \<Rightarrow>
             c\<lparr>ctx_db := d\<lparr>db_source_component := db_source_component d @
               [\<lparr> sc_source_component_id =
                    new_id ''source_component'' (length (db_source_component d)),
                  sc_name = name, sc_ftype = ftype,
                  sc_manufacturer_part_number = mpn \<rparr>]\<rparr>\<rparr>)"

definition insert_schematic_component :: "ctx \<Rightarrow> schematic_component \<Rightarrow> ctx" where
  "insert_schematic_component c component =
     (let d = ctx_db c in
      c\<lparr>ctx_db := d\<lparr>db_schematic_component := db_schematic_component d @ [component]\<rparr>\<rparr>)"

text \<open>\<^verbatim>\<open>ctx.symbolUuidToComponentId?.set(uuid, componentId)\<close>\<close>

definition set_symbol_component :: "ctx \<Rightarrow> string \<Rightarrow> string \<Rightarrow> ctx" where
  "set_symbol_component c uuid componentId =
     (case symbolUuidToComponentId c of
        None \<Rightarrow> c
      | Some tbl \<Rightarrow> c\<lparr>symbolUuidToComponentId := Some (tbl(uuid \<mapsto> componentId))\<rparr>)"

definition bump_components :: "ctx \<Rightarrow> ctx" where
  "bump_components c =
     (case ctx_stats c of
        None \<Rightarrow> c
      | Some st \<Rightarrow> c\<lparr>ctx_stats := Some (st\<lparr>stats_components := bump (stats_components st)\<rparr>)\<rparr>)"

definition symbol_kicadPos :: "sch_symbol \<Rightarrow> point" where
  "symbol_kicadPos symbol =
     (case sym_at symbol of
        None \<Rightarrow> (0, 0)
      | Some a \<Rightarrow> (case sat_x a of None \<Rightarrow> 0 | Some v \<Rightarrow> v,
                   case sat_y a of None \<Rightarrow> 0 | Some v \<Rightarrow> v))"

definition processSymbol :: "(string \<Rightarrow> nat \<Rightarrow> string) \<Rightarrow> ctx \<Rightarrow> sch_symbol \<Rightarrow> ctx" where
  "processSymbol new_id c symbol =
     (case k2cMatSch c of
        None \<Rightarrow> c
      | Some m \<Rightarrow>
          (let reference = str_or (getProperty symbol ''Reference'') ''U?'';
               value = str_or (getProperty symbol ''Value'') [];
               libId = str_or (sym_libraryId symbol) [];
               cjPos = applyToPoint m (symbol_kicadPos symbol);
               rotation = symbol_angle symbol;
               ftype = inferFtype libId reference;
               sourceComponentId = libId @ ''_source'';
               c1 = insert_source_component_unless_found new_id c sourceComponentId
                      (if libId = [] then reference else libId) ftype
                      (if value = [] then None else Some value)
           in case sym_uuid symbol of
                None \<Rightarrow> c1
              | Some uuid \<Rightarrow>
                  if uuid = [] then c1
                  else
                    (let symbolName = inferSymbolName libId reference rotation;
                         componentId =
                           new_id ''schematic_component''
                             (length (db_schematic_component (ctx_db c1)));
                         c2 = insert_schematic_component c1
                                \<lparr> scc_schematic_component_id = componentId,
                                  scc_source_component_id = sourceComponentId,
                                  scc_center = cjPos,
                                  scc_size = estimateSize symbol,
                                  scc_symbol_name = symbolName \<rparr>;
                         c3 = set_symbol_component c2 uuid componentId;
                         c4 = createPorts c3 symbol componentId
                     in bump_components c4)))"

definition symbols_loop ::
  "(string \<Rightarrow> nat \<Rightarrow> string) \<Rightarrow> ctx \<times> string set \<Rightarrow> sch_symbol \<Rightarrow> ctx \<times> string set" where
  "symbols_loop new_id acc symbol =
     (case sym_uuid symbol of
        None \<Rightarrow> acc
      | Some uuid \<Rightarrow>
          if uuid = [] \<or> uuid \<in> snd acc then acc
          else (processSymbol new_id (fst acc) symbol, insert uuid (snd acc)))"

definition CollectLibrarySymbolsStage_step ::
  "(string \<Rightarrow> nat \<Rightarrow> string) \<Rightarrow> symbols_stage \<Rightarrow> symbols_stage" where
  "CollectLibrarySymbolsStage_step new_id s =
     (let c = stage_ctx s in
      case (kicadSch c, k2cMatSch c) of
        (Some sch, Some m) \<Rightarrow>
          (let (c1, processed) = foldl (symbols_loop new_id) (c, processedSymbols s) (sch_symbols sch)
           in s\<lparr>stage_ctx := c1, processedSymbols := processed, finished := True\<rparr>)
      | _ \<Rightarrow> s\<lparr>finished := True\<rparr>)"

section \<open>Pads of a footprint\<close>

text \<open>
  \<^verbatim>\<open>determineLayerFromLayers\<close> lives in a file of the stage that is not part of the sources
  at hand; it is a parameter \<open>dll\<close> here. It is applied to the layer names of a pad and,
  inside \<^verbatim>\<open>createPcbPort\<close>, to a list that holds one result of its own, which may be
  absent: its argument is a list of optional strings.
\<close>

record pad_port_info =
  ppi_padNumber :: string
  ppi_padType :: string
  ppi_layers :: "string option list"
  ppi_position :: point

definition createPcbPort ::
  "(string option list \<Rightarrow> string option) \<Rightarrow> ctx \<Rightarrow> string \<Rightarrow> pad_port_info \<Rightarrow> bool \<times> ctx" where
  "createPcbPort dll c componentId padInfo =
     (case dll (ppi_layers padInfo) of
        None \<Rightarrow> (False, c)
      | Some portLayer \<Rightarrow>
          if portLayer = [] then (False, c)
          else
            (let sourcePortId = componentId @ ''_port_'' @ ppi_padNumber padInfo;
                 d = ctx_db c
             in (True, c\<lparr>ctx_db := d\<lparr>db_pcb_port := db_pcb_port d @
                   [\<lparr> pp_pcb_component_id = componentId, pp_source_port_id = sourcePortId,
                      pp_x = fst (ppi_position padInfo), pp_y = snd (ppi_position padInfo),
                      pp_layers = [portLayer] \<rparr>]\<rparr>\<rparr>)))"

definition pad_layer_names :: "pad \<Rightarrow> string option list" where
  "pad_layer_names pad = (case pad_layers pad of None \<Rightarrow> [] | Some ls \<Rightarrow> map Some ls)"

definition pad_number_string :: "pad \<Rightarrow> string option" where
  "pad_number_string pad = map_option pad_number_toString (pad_number pad)"

text \<open>
  \<^verbatim>\<open>primitive.token === "gr_poly" || primitive.gr_poly || primitive.type === "gr_poly"\<close>, and
  the polygon body \<^verbatim>\<open>primitive.gr_poly || primitive\<close>.
\<close>

definition is_gr_poly :: "gr_primitive \<Rightarrow> bool" where
  "is_gr_poly primitive =
     (prim_token primitive = Some ''gr_poly'' \<or> prim_gr_poly primitive \<noteq> None \<or>
      prim_type primitive = Some ''gr_poly'')"

definition gr_poly_body :: "gr_primitive \<Rightarrow> poly_body" where
  "gr_poly_body primitive =
     (case prim_gr_poly primitive of None \<Rightarrow> prim_body primitive | Some b \<Rightarrow> b)"

definition contour_xy :: "gr_contour \<Rightarrow> point list" where
  "contour_xy contour =
     (let pts = (case contour_points contour of
                   Some ps \<Rightarrow> ps
                 | None \<Rightarrow> (case contour_pts contour of Some ps \<Rightarrow> ps | None \<Rightarrow> []))
      in List.map_filter
           (\<lambda>pt. case pt of (Some px, Some py) \<Rightarrow> Some (px, - py) | _ \<Rightarrow> None) pts)"

definition primitive_points :: "gr_primitive \<Rightarrow> point list" where
  "primitive_points primitive =
     (let grPoly = gr_poly_body primitive;
          contours = (case body_sx_contours grPoly of
                        Some cs \<Rightarrow> cs
                      | None \<Rightarrow> (case body_contours grPoly of Some cs \<Rightarrow> cs | None \<Rightarrow> []))
      in concat (map contour_xy contours))"

text \<open>The first polygon primitive with at least one point, if there is one.\<close>

definition custom_polygon :: "pad \<Rightarrow> point list option" where
  "custom_polygon pad =
     (let primitives = (case pad_sxGraphics pad of
                          Some ps \<Rightarrow> ps
                        | None \<Rightarrow> (case pad_primitives pad of Some ps \<Rightarrow> ps | None \<Rightarrow> []))
      in case find (\<lambda>primitive. is_gr_poly primitive \<and> length (primitive_points primitive) > 0)
                primitives of
           None \<Rightarrow> None
         | Some primitive \<Rightarrow> Some (primitive_points primitive))"

text \<open>The object that \<^verbatim>\<open>createSmdPad\<close> inserts.\<close>

definition smtpad_record ::
  "(string option list \<Rightarrow> string option) \<Rightarrow> pad \<Rightarrow> string \<Rightarrow> point \<Rightarrow> real \<times> real \<Rightarrow> string \<Rightarrow> pcb_smtpad" where
  "smtpad_record dll pad componentId pos padSize shape =
     (let layer = dll (pad_layer_names pad);
          polygon = (if shape = ''custom'' then custom_polygon pad else None)
      in case polygon of
           Some points \<Rightarrow>
             \<lparr> smt_pcb_component_id = componentId, smt_layer = layer,
               smt_port_hints = [pad_number_string pad],
               smt_shape = SmtPolygon (map (\<lambda>pt. (fadd (fst pos) (fst pt), fadd (snd pos) (snd pt))) points) \<rparr>
         | None \<Rightarrow>
             (let geometry =
                    (if shape = ''circle'' then
                       SmtCircle (fst pos) (snd pos) (fst padSize) (snd padSize)
                         (fdiv (max (fst padSize) (snd padSize)) 2)
                     else if shape = ''rect'' \<or> shape = ''roundrect'' then
                       (let roundrectRatio = nullish (pad_sxRoundrectRatio pad) (pad_roundrect_rratio pad) in
                        SmtRect (fst pos) (snd pos) (fst padSize) (snd padSize)
                          (case roundrectRatio of
                             None \<Rightarrow> None
                           | Some ratio \<Rightarrow>
                               if shape = ''roundrect''
                               then Some (fdiv (fmul (min (fst padSize) (snd padSize)) ratio) 2)
                               else None))
                     else SmtRect (fst pos) (snd pos) (fst padSize) (snd padSize) None)
              in \<lparr> smt_pcb_component_id = componentId, smt_layer = layer,
                   smt_port_hints = [pad_number_string pad], smt_shape = geometry \<rparr>))"

definition createSmdPad ::
  "(string option list \<Rightarrow> string option) \<Rightarrow> ctx \<Rightarrow> pad \<Rightarrow> string \<Rightarrow> point \<Rightarrow> real \<times> real \<Rightarrow> string \<Rightarrow> ctx" where
  "createSmdPad dll c pad componentId pos padSize shape =
     bump_pads (insert_smtpad c (smtpad_record dll pad componentId pos padSize shape))"

text \<open>
  An exception that a routine raises ends it; the records it had inserted before stay in
  the store, so the value of a raise holds the context at that moment.
\<close>

datatype error = TypeError

type_synonym 'a raised = "error \<times> 'a"

text \<open>
  The object that \<^verbatim>\<open>createPlatedHole\<close> inserts. \<^verbatim>\<open>typeof null\<close> is \<^verbatim>\<open>"object"\<close>: for a
  drill that is \<^verbatim>\<open>null\<close> the diameter is the default, and the test \<^verbatim>\<open>drill.x !== undefined\<close>
  that follows raises a \<^verbatim>\<open>TypeError\<close> before anything is inserted.
\<close>

definition plated_hole_record ::
  "pad \<Rightarrow> string \<Rightarrow> point \<Rightarrow> real \<times> real \<Rightarrow> pad_drill option \<Rightarrow> string \<Rightarrow> real \<Rightarrow> pcb_plated_hole" where
  "plated_hole_record pad componentId pos padSize drill shape rotation =
     (let holeDiameter =
            (case drill of
               None \<Rightarrow> fl (8 / 10)
             | Some DrillNull \<Rightarrow> fl (8 / 10)
             | Some (DrillNumber dn) \<Rightarrow> if dn = 0 then fl (8 / 10) else dn
             | Some (DrillObject diameter dx dy) \<Rightarrow> num_or diameter (num_or dx (fl (8 / 10))));
          normalizedRotation0 = js_rem rotation 360;
          normalizedRotation =
            (if normalizedRotation0 < 0 then fadd normalizedRotation0 360 else normalizedRotation0);
          shouldSwapDimensions =
            ((normalizedRotation \<ge> 45 \<and> normalizedRotation < 135) \<or>
             (normalizedRotation \<ge> 225 \<and> normalizedRotation < 315));
          outerWidth = (if shouldSwapDimensions \<and> shape = ''oval'' then snd padSize else fst padSize);
          outerHeight = (if shouldSwapDimensions \<and> shape = ''oval'' then fst padSize else snd padSize);
          geometry =
            (if shape = ''circle'' then PhCircle holeDiameter (max outerWidth outerHeight)
             else if shape = ''oval'' then PhPill holeDiameter holeDiameter outerWidth outerHeight
             else if shape = ''rect'' \<or> shape = ''square''
             then PhRectPad holeDiameter holeDiameter outerWidth outerHeight
             else PhUnshaped)
      in \<lparr> ph_pcb_component_id = componentId, ph_x = fst pos, ph_y = snd pos,
           ph_port_hints = [pad_number_string pad], ph_shape = geometry \<rparr>)"

definition insert_plated_hole :: "ctx \<Rightarrow> pcb_plated_hole \<Rightarrow> ctx" where
  "insert_plated_hole c h =
     (let d = ctx_db c in c\<lparr>ctx_db := d\<lparr>db_pcb_plated_hole := db_pcb_plated_hole d @ [h]\<rparr>\<rparr>)"

definition createPlatedHole ::
  "ctx \<Rightarrow> pad \<Rightarrow> string \<Rightarrow> point \<Rightarrow> real \<times> real \<Rightarrow> pad_drill option \<Rightarrow> string \<Rightarrow> real \<Rightarrow> ctx raised + ctx" where
  "createPlatedHole c pad componentId pos padSize drill shape rotation =
     (if drill = Some DrillNull then Inl (TypeError, c)
      else Inr (bump_pads (insert_plated_hole c
                  (plated_hole_record pad componentId pos padSize drill shape rotation))))"

text \<open>
  \<^verbatim>\<open>drill?.diameter || drill || 1.0\<close>: a drill object without a diameter is itself the
  value of the expression.
\<close>

definition hole_record :: "point \<Rightarrow> pad_drill option \<Rightarrow> pcb_hole" where
  "hole_record pos drill =
     (let holeDiameter =
            (case drill of
               None \<Rightarrow> DrillNumber 1
             | Some DrillNull \<Rightarrow> DrillNumber 1
             | Some (DrillNumber dn) \<Rightarrow> if dn = 0 then DrillNumber 1 else DrillNumber dn
             | Some (DrillObject diameter dx dy) \<Rightarrow>
                 (case diameter of
                    None \<Rightarrow> DrillObject diameter dx dy
                  | Some dm \<Rightarrow> if dm = 0 then DrillObject diameter dx dy else DrillNumber dm))
      in \<lparr> hole_x = fst pos, hole_y = snd pos, hole_diameter = holeDiameter \<rparr>)"

definition insert_hole :: "ctx \<Rightarrow> pcb_hole \<Rightarrow> ctx" where
  "insert_hole c h = (let d = ctx_db c in c\<lparr>ctx_db := d\<lparr>db_pcb_hole := db_pcb_hole d @ [h]\<rparr>\<rparr>)"

definition createNpthHole :: "ctx \<Rightarrow> pad \<Rightarrow> string \<Rightarrow> point \<Rightarrow> pad_drill option \<Rightarrow> ctx" where
  "createNpthHole c pad componentId pos drill = insert_hole c (hole_record pos drill)"

definition pad_size_xy :: "pad_size option \<Rightarrow> real \<times> real" where
  "pad_size_xy sz =
     (case sz of
        None \<Rightarrow> (1, 1)
      | Some (SizeArray w h) \<Rightarrow> (num_or w 1, num_or h 1)
      | Some (SizeObject sx_width sx sx_height sy) \<Rightarrow>
          (num_or sx_width (num_or sx 1), num_or sx_height (num_or sy 1)))"

text \<open>
  The values that \<^verbatim>\<open>processPad\<close> computes from the pad before it inserts anything: the
  pad, \<^verbatim>\<open>padType\<close>, \<^verbatim>\<open>padShape\<close>, the position \<^verbatim>\<open>globalPos\<close> and the rotation
  \<^verbatim>\<open>totalRotation\<close>.
\<close>

definition pad_at_or_origin :: "pad \<Rightarrow> pad_at" where
  "pad_at_or_origin pad =
     (case pad_at pad of
        None \<Rightarrow> \<lparr> pat_x = 0, pat_y = 0, pat_angle = Some 0 \<rparr>
      | Some a \<Rightarrow> a)"

definition pad_padType_of :: "pad \<Rightarrow> string" where
  "pad_padType_of pad = str_or (pad_padType pad) (str_or (pad_type pad) ''thru_hole'')"

definition pad_shape_of :: "pad \<Rightarrow> string" where
  "pad_shape_of pad = str_or (pad_shape pad) ''circle''"

definition pad_globalPos :: "matrix \<Rightarrow> pad \<Rightarrow> point \<Rightarrow> real \<Rightarrow> point" where
  "pad_globalPos m pad kicadComponentPos componentRotation =
     (let padAt = pad_at_or_origin pad;
          rotationRad = fdiv (fmul (- componentRotation) Math_PI) 180;
          rotatedPadX = fsub (fmul (pat_x padAt) (Math_cos rotationRad))
                             (fmul (pat_y padAt) (Math_sin rotationRad));
          rotatedPadY = fadd (fmul (pat_x padAt) (Math_sin rotationRad))
                             (fmul (pat_y padAt) (Math_cos rotationRad));
          padKicadPos = (fadd (fst kicadComponentPos) rotatedPadX,
                         fadd (snd kicadComponentPos) rotatedPadY)
      in applyToPoint m padKicadPos)"

definition pad_totalRotation :: "pad \<Rightarrow> real \<Rightarrow> real" where
  "pad_totalRotation pad componentRotation =
     (let padRotation = num_or (pat_angle (pad_at_or_origin pad)) 0
      in fsub (- componentRotation) padRotation)"

definition processPad ::
  "(string option list \<Rightarrow> string option) \<Rightarrow> ctx \<Rightarrow> pad \<Rightarrow> string \<Rightarrow> point \<Rightarrow> real \<Rightarrow> ctx raised + ctx" where
  "processPad dll c pad componentId kicadComponentPos componentRotation =
     (case k2cMatPcb c of
        None \<Rightarrow> Inr c
      | Some m \<Rightarrow>
          (let padType = pad_padType_of pad;
               padShape = pad_shape_of pad;
               globalPos = pad_globalPos m pad kicadComponentPos componentRotation;
               padSize = pad_size_xy (pad_size pad);
               drill = pad_drill pad;
               totalRotation = pad_totalRotation pad componentRotation;
               c1 = (case pad_number_string pad of
                       None \<Rightarrow> c
                     | Some padNumber \<Rightarrow>
                         if padNumber = [] then c
                         else snd (createPcbPort dll c componentId
                                \<lparr> ppi_padNumber = padNumber, ppi_padType = padType,
                                  ppi_layers = (if padType = ''smd'' then [dll (pad_layer_names pad)] else []),
                                  ppi_position = globalPos \<rparr>))
           in if padType = ''smd''
              then Inr (createSmdPad dll c1 pad componentId globalPos padSize padShape)
              else if padType = ''np_thru_hole''
              then Inr (createNpthHole c1 pad componentId globalPos drill)
              else createPlatedHole c1 pad componentId globalPos padSize drill padShape totalRotation))"

text \<open>The loop over the pads of a footprint ends at the first pad that raises.\<close>

fun pads_loop ::
  "(string option list \<Rightarrow> string option) \<Rightarrow> string \<Rightarrow> point \<Rightarrow> real \<Rightarrow> ctx \<Rightarrow> pad list \<Rightarrow> ctx raised + ctx" where
  "pads_loop dll componentId kicadComponentPos componentRotation c [] = Inr c"
| "pads_loop dll componentId kicadComponentPos componentRotation c (pad # pads) =
     (case processPad dll c pad componentId kicadComponentPos componentRotation of
        Inl e \<Rightarrow> Inl e
      | Inr c' \<Rightarrow> pads_loop dll componentId kicadComponentPos componentRotation c' pads)"

definition processPads ::
  "(string option list \<Rightarrow> string option) \<Rightarrow> ctx \<Rightarrow> footprint \<Rightarrow> string \<Rightarrow> point \<Rightarrow> real \<Rightarrow> ctx raised + ctx" where
  "processPads dll c fp componentId kicadComponentPos componentRotation =
     (case k2cMatPcb c of
        None \<Rightarrow> Inr c
      | Some m \<Rightarrow> pads_loop dll componentId kicadComponentPos componentRotation c (fp_pads fp))"

section \<open>Notions used to state the claims\<close>

text \<open>
  The members of a net, read off the design tree: the pads, in the order of the footprints
  and of their pads, that belong to a footprint with a component, carry a number and name
  the net, which is not net 0.
\<close>

definition pad_member :: "string \<Rightarrow> pad \<Rightarrow> (int \<times> pad_ref) option" where
  "pad_member componentId pad =
     (case (map_option pad_number_toString (pad_number pad), getPadNet pad) of
        (Some pn, Some netNum) \<Rightarrow>
          if pn = [] \<or> netNum = 0 then None
          else Some (netNum, \<lparr> pr_componentId = componentId, pr_padNumber = pn,
                                pr_sourcePortId = sourcePortId_of componentId pn \<rparr>)
      | _ \<Rightarrow> None)"

definition footprint_componentId :: "ctx \<Rightarrow> footprint \<Rightarrow> string option" where
  "footprint_componentId c fp =
     (case (footprintUuid fp, footprintUuidToComponentId c) of
        (Some uuid, Some m) \<Rightarrow>
          if uuid = [] then None
          else (case m uuid of None \<Rightarrow> None | Some cid \<Rightarrow> if cid = [] then None else Some cid)
      | _ \<Rightarrow> None)"

definition footprint_members :: "ctx \<Rightarrow> footprint \<Rightarrow> (int \<times> pad_ref) list" where
  "footprint_members c fp =
     (case footprint_componentId c fp of
        None \<Rightarrow> []
      | Some cid \<Rightarrow> List.map_filter (pad_member cid) (fp_pads fp))"

definition all_members :: "ctx \<Rightarrow> kicad_pcb \<Rightarrow> (int \<times> pad_ref) list" where
  "all_members c pcb = concat (map (footprint_members c) (pcb_footprints pcb))"

definition net_members :: "ctx \<Rightarrow> kicad_pcb \<Rightarrow> int \<Rightarrow> pad_ref list" where
  "net_members c pcb n = map snd (filter (\<lambda>e. fst e = n) (all_members c pcb))"

text \<open>The nets that have a member, each once, in the order of their first member.\<close>

definition member_nets :: "ctx \<Rightarrow> kicad_pcb \<Rightarrow> int list" where
  "member_nets c pcb = rev (remdups (rev (map fst (all_members c pcb))))"

text \<open>
  The four corners of an axis-parallel rectangle and its four sides, each side running from
  one corner to the next.
\<close>

datatype corner = Corner_A | Corner_B | Corner_C | Corner_D

fun corner_point :: "real \<Rightarrow> real \<Rightarrow> real \<Rightarrow> real \<Rightarrow> corner \<Rightarrow> point" where
  "corner_point x0 y0 x1 y1 Corner_A = (x0, y0)"
| "corner_point x0 y0 x1 y1 Corner_B = (x1, y0)"
| "corner_point x0 y0 x1 y1 Corner_C = (x1, y1)"
| "corner_point x0 y0 x1 y1 Corner_D = (x0, y1)"

definition corner_cycle :: "(corner \<times> corner) list" where
  "corner_cycle =
     [(Corner_A, Corner_B), (Corner_B, Corner_C), (Corner_C, Corner_D), (Corner_D, Corner_A)]"

definition rect_sides :: "real \<Rightarrow> real \<Rightarrow> real \<Rightarrow> real \<Rightarrow> (point \<times> point) list" where
  "rect_sides x0 y0 x1 y1 =
     map (map_prod (corner_point x0 y0 x1 y1) (corner_point x0 y0 x1 y1)) corner_cycle"

text \<open>
  A list of segments draws the rectangle when it lists the four sides in some order, each
  side in one of its two directions.
\<close>

definition draws_rectangle :: "real \<Rightarrow> real \<Rightarrow> real \<Rightarrow> real \<Rightarrow> (point \<times> point) list \<Rightarrow> bool" where
  "draws_rectangle x0 y0 x1 y1 segments \<longleftrightarrow>
     (\<exists>sides. mset sides = mset (rect_sides x0 y0 x1 y1) \<and>
        list_all2 (\<lambda>seg side. seg = side \<or> seg = prod.swap side) segments sides)"

text \<open>
  The width and the height of the image of the rectangle under a transform, as the code
  measures them: the rounded difference of the images of two corners.
\<close>

definition rect_image_width :: "matrix \<Rightarrow> real \<Rightarrow> real \<Rightarrow> real \<Rightarrow> real \<Rightarrow> real" where
  "rect_image_width m x0 y0 x1 y1 =
     \<bar>fsub (fst (applyToPoint m (x1, y0))) (fst (applyToPoint m (x0, y0)))\<bar>"

definition rect_image_height :: "matrix \<Rightarrow> real \<Rightarrow> real \<Rightarrow> real \<Rightarrow> real \<Rightarrow> real" where
  "rect_image_height m x0 y0 x1 y1 =
     \<bar>fsub (snd (applyToPoint m (x0, y1))) (snd (applyToPoint m (x0, y0)))\<bar>"

text \<open>The unique ids of the symbols of a sheet that a step still has to process.\<close>

definition pending_uuids :: "kicad_sch \<Rightarrow> string set \<Rightarrow> string set" where
  "pending_uuids sch processed =
     set (List.map_filter sym_uuid (sch_symbols sch)) - {[]} - processed"

section \<open>Auxiliary notions for the proofs\<close>

text \<open>Two contexts that differ at most in the table of source ports.\<close>

definition ports_only :: "ctx \<Rightarrow> ctx \<Rightarrow> bool" where
  "ports_only c c' \<longleftrightarrow> (\<exists>ps. c' = c\<lparr>ctx_db := (ctx_db c)\<lparr>db_source_port := ps\<rparr>\<rparr>)"

text \<open>One push onto the per-net pad lists, and the keys of a list of pairs in the order of
  their first occurrence.\<close>

definition push_entry :: "(int \<times> pad_ref list) list \<Rightarrow> int \<times> pad_ref \<Rightarrow> (int \<times> pad_ref list) list" where
  "push_entry m e = netToPads_push (fst e) (snd e) m"

definition first_keys :: "(int \<times> pad_ref) list \<Rightarrow> int list" where
  "first_keys es = rev (remdups (rev (map fst es)))"

text \<open>All orders of a list, all choices of direction for its segments, and both together.\<close>

fun insert_all :: "'a \<Rightarrow> 'a list \<Rightarrow> 'a list list" where
  "insert_all x [] = [[x]]"
| "insert_all x (y # ys) = (x # y # ys) # map ((#) y) (insert_all x ys)"

fun perms :: "'a list \<Rightarrow> 'a list list" where
  "perms [] = [[]]"
| "perms (x # xs) = concat (map (insert_all x) (perms xs))"

fun orientations :: "('p \<times> 'p) list \<Rightarrow> ('p \<times> 'p) list list" where
  "orientations [] = [[]]"
| "orientations (s # ss) = concat (map (\<lambda>r. [s # r, prod.swap s # r]) (orientations ss))"

definition arrangements :: "('p \<times> 'p) list \<Rightarrow> ('p \<times> 'p) list list" where
  "arrangements es = concat (map orientations (perms es))"

text \<open>A chain that closes: four segments with four different start points, the last one
  ending where the first one starts.\<close>

definition closed_chain :: "(corner \<times> corner) list \<Rightarrow> bool" where
  "closed_chain c \<longleftrightarrow>
     length c = 4 \<and> distinct (map fst c) \<and> snd (last c) = fst (hd c) \<and>
     list_all (\<lambda>k. k \<in> set (map fst c)) [Corner_A, Corner_B, Corner_C, Corner_D]"

text \<open>Two contexts that differ at most in the table of schematic ports.\<close>

definition sch_ports_only :: "ctx \<Rightarrow> ctx \<Rightarrow> bool" where
  "sch_ports_only c c' \<longleftrightarrow> (\<exists>ps. c' = c\<lparr>ctx_db := (ctx_db c)\<lparr>db_schematic_port := ps\<rparr>\<rparr>)"

text \<open>
  What the loop over the symbols of a sheet keeps true: the sheet and the transform stay,
  the processed set grows by the unique ids met, one schematic component is added per
  pending id and at most one source component.
\<close>

definition loop_inv ::
  "ctx \<Rightarrow> string set \<Rightarrow> sch_symbol list \<Rightarrow> ctx \<times> string set \<Rightarrow> bool" where
  "loop_inv c P syms r \<longleftrightarrow>
     kicadSch (fst r) = kicadSch c \<and> k2cMatSch (fst r) = k2cMatSch c \<and>
     snd r = P \<union> (set (List.map_filter sym_uuid syms) - {[]}) \<and>
     length (db_schematic_component (ctx_db (fst r))) =
       length (db_schematic_component (ctx_db c)) +
       card (set (List.map_filter sym_uuid syms) - {[]} - P) \<and>
     length (db_source_component (ctx_db (fst r))) \<le>
       length (db_source_component (ctx_db c)) +
       card (set (List.map_filter sym_uuid syms) - {[]} - P) \<and>
     length (db_source_component (ctx_db c)) \<le> length (db_source_component (ctx_db (fst r)))"

section \<open>Concrete designs\<close>

text \<open>An empty store, a context with nothing in it, and a pad, a footprint and a board with
  every optional field absent; the examples below fill in what they need.\<close>

definition empty_db :: db where
  "empty_db = \<lparr> db_source_component = [], db_source_port = [], db_source_trace = [],
     db_schematic_component = [], db_schematic_port = [], db_pcb_board = [],
     db_pcb_silkscreen_path = [], db_pcb_silkscreen_text = [], db_pcb_smtpad = [],
     db_pcb_plated_hole = [], db_pcb_hole = [], db_pcb_port = [], db_pcb_via = [],
     db_pcb_copper_pour = [] \<rparr>"

definition empty_ctx :: ctx where
  "empty_ctx = \<lparr> kicadSch = None, kicadPcb = None, k2cMatSch = None, k2cMatPcb = None,
     netNumToName = None, symbolUuidToComponentId = None, footprintUuidToComponentId = None,
     footprintUuidToSourceComponentId = None, ctx_stats = None, ctx_warnings = None,
     ctx_db = empty_db \<rparr>"

definition empty_pcb :: kicad_pcb where
  "empty_pcb = \<lparr> pcb_footprints = [], pcb_nets = [], pcb_vias = [], pcb_graphicLines = [],
     pcb_graphicRects = [], pcb_graphicPolys = [], pcb_graphicTexts = [], pcb_zones = [] \<rparr>"

definition bare_pad :: pad where
  "bare_pad = \<lparr> pad_number = None, pad_sxNet = None, pad_net = None, pad_at = None,
     pad_padType = None, pad_type = None, pad_shape = None, pad_size = None, pad_drill = None,
     pad_layers = None, pad_sxGraphics = None, pad_primitives = None,
     pad_sxRoundrectRatio = None, pad_roundrect_rratio = None \<rparr>"

text \<open>A context with the flipping unit transform of the board, and a pad without a number
  whose drill is \<^verbatim>\<open>null\<close>.\<close>

definition flip_matrix :: matrix where
  "flip_matrix = \<lparr> m_a = 1, m_b = 0, m_c = 0, m_d = - 1, m_e = 0, m_f = 0 \<rparr>"

definition board_ctx :: ctx where
  "board_ctx = empty_ctx\<lparr> k2cMatPcb := Some flip_matrix \<rparr>"

definition null_drill_pad :: pad where
  "null_drill_pad = bare_pad\<lparr> pad_drill := Some DrillNull \<rparr>"

definition bare_footprint :: footprint where
  "bare_footprint = \<lparr> fp_uuid = None, fp_tstamp = None, fp_pads = [], fp_properties = [],
     fp_texts = [] \<rparr>"

text \<open>A board whose net table has the one entry \<^verbatim>\<open>(net 0 "GND")\<close>.\<close>

definition gnd_net :: net_entry where
  "gnd_net = \<lparr> net_sx_id = Some 0, net_number = None, net_ordinal = None,
     net_sx_name = Some ''GND'', net_name = None \<rparr>"

definition unnamed_net5 :: net_entry where
  "unnamed_net5 = \<lparr> net_sx_id = Some 5, net_number = None, net_ordinal = None,
     net_sx_name = None, net_name = None \<rparr>"

definition gnd_stage :: stage where
  "gnd_stage = \<lparr> stage_ctx = empty_ctx\<lparr> kicadPcb := Some (empty_pcb\<lparr> pcb_nets := [gnd_net, unnamed_net5] \<rparr>),
                                         netNumToName := Some Map.empty \<rparr>,
                 finished = False \<rparr>"

text \<open>
  A board with one footprint, placed as component \<^verbatim>\<open>pcb_component_0\<close>, that has two pads
  numbered 1, both on net 5.
\<close>

definition pad1_net5 :: pad where
  "pad1_net5 = bare_pad\<lparr> pad_number := Some (PadStr ''1''), pad_net := Some (NetNumber 5) \<rparr>"

definition twin_pads_pcb :: kicad_pcb where
  "twin_pads_pcb = empty_pcb\<lparr> pcb_footprints :=
     [bare_footprint\<lparr> fp_uuid := Some ''u1'', fp_pads := [pad1_net5, pad1_net5] \<rparr>] \<rparr>"

definition twin_pads_stage :: traces_stage where
  "twin_pads_stage =
     \<lparr> stage_ctx = empty_ctx\<lparr> kicadPcb := Some twin_pads_pcb,
                               netNumToName := Some Map.empty,
                               footprintUuidToComponentId := Some [''u1'' \<mapsto> ''pcb_component_0''] \<rparr>,
       finished = False, processedNets = {} \<rparr>"

text \<open>A board of four edge lines around the rectangle from \<open>(0, 0)\<close> to \<open>(1/2048, 10)\<close>,
  narrower than the tolerance of the point comparison, a board of four edge lines around
  the rectangle from \<open>(0, 0)\<close> to \<open>(30, 20)\<close>, and the unit transform that flips the vertical
  axis.\<close>

definition edge_line :: "point \<Rightarrow> point \<Rightarrow> gr_line" where
  "edge_line p q = \<lparr> grl_layer = Some (LayerString ''Edge.Cuts''), grl_start = Some p,
                      grl_end = Some q, grl_width = None \<rparr>"

definition narrow_rect_lines :: "gr_line list" where
  "narrow_rect_lines =
     [edge_line (0, 0) (1 / 2048, 0), edge_line (1 / 2048, 0) (1 / 2048, 10),
      edge_line (1 / 2048, 10) (0, 10), edge_line (0, 10) (0, 0)]"

definition unit_rect_lines :: "gr_line list" where
  "unit_rect_lines =
     [edge_line (0, 0) (30, 0), edge_line (0, 20) (0, 0),
      edge_line (30, 20) (30, 0), edge_line (30, 20) (0, 20)]"













text \<open>A sheet on which one resistor symbol is placed twice under one unique id, with a
  transform of scale \<open>1/15\<close>, and a context whose sheet transform has scale \<open>1/16\<close>.\<close>

definition sch_matrix :: matrix where
  "sch_matrix = \<lparr> m_a = 1 / 15, m_b = 0, m_c = 0, m_d = - (1 / 15), m_e = 0, m_f = 0 \<rparr>"



definition r1_symbol :: sch_symbol where
  "r1_symbol = \<lparr> sym_uuid = Some ''u1'', sym_libraryId = Some ''Device:R'', sym_at = None,
                  sym_properties = [] \<rparr>"

definition twice_sch :: kicad_sch where
  "twice_sch = \<lparr> sch_symbols = [r1_symbol, r1_symbol], sch_libSymbols = None \<rparr>"

definition twice_stage :: symbols_stage where
  "twice_stage =
     \<lparr> stage_ctx = empty_ctx\<lparr> kicadSch := Some twice_sch, k2cMatSch := Some sch_matrix \<rparr>,
       finished = False, processedSymbols = {} \<rparr>"


definition idle_stage :: stage where
  "idle_stage = \<lparr> stage_ctx = empty_ctx, finished = False \<rparr>"

definition idle_symbols_stage :: symbols_stage where
  "idle_symbols_stage = \<lparr> stage_ctx = empty_ctx, finished = False, processedSymbols = {} \<rparr>"

definition idle_traces_stage :: traces_stage where
  "idle_traces_stage = \<lparr> stage_ctx = empty_ctx, finished = False, processedNets = {} \<rparr>"

text \<open>An identifier generator that numbers the records of a table, and a layer function
  that returns the first layer name it is given.\<close>

definition counter_id :: "string \<Rightarrow> nat \<Rightarrow> string" where
  "counter_id table n = table @ ''_'' @ show_nat n"

definition floor_text :: "real \<Rightarrow> string" where
  "floor_text n = show_int \<lfloor>n\<rfloor>"

definition first_layer :: "string option list \<Rightarrow> string option" where
  "first_layer layers = (case layers of [] \<Rightarrow> None | l # ls \<Rightarrow> l)"

section \<open>Properties of double arithmetic\<close>

lemma round_ties_even_of_int: "round_ties_even (of_int k) = k"
  by (simp add: round_ties_even_def)

lemma round_ties_even_minus: "round_ties_even (- q) = - round_ties_even q"
proof (cases "q = of_int \<lfloor>q\<rfloor>")
  case True
  then obtain k where q: "q = of_int k" ..
  have "round_ties_even (of_int (- k)) = - k" by (rule round_ties_even_of_int)
  then show ?thesis unfolding q by (simp add: round_ties_even_of_int)
next
  case False
  have "\<lceil>q\<rceil> = \<lfloor>q\<rfloor> + 1" using False by (simp add: ceiling_altdef)
  then have fm: "\<lfloor>- q\<rfloor> = - \<lfloor>q\<rfloor> - 1" by (simp add: ceiling_def)
  have evn: "even (- \<lfloor>q\<rfloor> - 1) \<longleftrightarrow> \<not> even \<lfloor>q\<rfloor>" by simp
  define f where "f = \<lfloor>q\<rfloor>"
  define r where "r = q - of_int f"
  have q: "q = of_int f + r" by (simp add: r_def)
  have r: "- (of_int f + r) - of_int (- f - 1) = 1 - r" by simp
  have r2: "of_int f + r - of_int f = r" by simp
  show ?thesis
    unfolding round_ties_even_def Let_def fm evn f_def [symmetric]
    unfolding q r r2
    by (cases "r < 1 / 2"; cases "1 / 2 < r") auto
qed

lemma round_ties_even_nonneg: "0 \<le> q \<Longrightarrow> 0 \<le> round_ties_even q"
  unfolding round_ties_even_def Let_def by (auto simp: zero_le_floor intro: add_nonneg_nonneg)

lemma floor_log2_eq:
  assumes "2 powi e \<le> \<bar>x\<bar>" and "\<bar>x\<bar> < 2 powi (e + 1)"
  shows "\<lfloor>log 2 \<bar>x\<bar>\<rfloor> = e"
proof -
  have pos: "0 < \<bar>x\<bar>" using assms(1) zero_less_power_int [of "2::real" e] by linarith
  have a: "(2::real) powr of_int e = 2 powi e" by (rule powr_real_of_int') simp_all
  have b: "(2::real) powr (of_int e + 1) = 2 powi (e + 1)"
    using powr_real_of_int' [of "2::real" "e + 1"] by simp
  show ?thesis
    using assms pos by (simp add: floor_log_eq_powr_iff a b)
qed

lemma floor_log2_bounds:
  assumes "x \<noteq> 0"
  shows "2 powi \<lfloor>log 2 \<bar>x\<bar>\<rfloor> \<le> \<bar>x\<bar> \<and> \<bar>x\<bar> < 2 powi (\<lfloor>log 2 \<bar>x\<bar>\<rfloor> + 1)"
proof -
  define e where "e = \<lfloor>log 2 \<bar>x\<bar>\<rfloor>"
  have pos: "0 < \<bar>x\<bar>" using assms by simp
  have a: "(2::real) powr of_int e = 2 powi e" by (rule powr_real_of_int') simp_all
  have b: "(2::real) powr (of_int e + 1) = 2 powi (e + 1)"
    using powr_real_of_int' [of "2::real" "e + 1"] by simp
  have "\<lfloor>log 2 \<bar>x\<bar>\<rfloor> = e" by (simp add: e_def)
  then have "2 powr of_int e \<le> \<bar>x\<bar> \<and> \<bar>x\<bar> < 2 powr (of_int e + 1)"
    using pos floor_log_eq_powr_iff [of "\<bar>x\<bar>" 2 e] by simp
  then show ?thesis using a b by (simp add: e_def)
qed

lemma fl_zero: "fl 0 = 0"
  by (simp add: fl_def)

lemma binade_minus: "binade (- x) = binade x"
  by (simp add: binade_def)

lemma fl_minus: "fl (- x) = - fl x"
  by (simp add: fl_def binade_minus Let_def round_ties_even_minus)

lemma fl_nonneg: "0 \<le> x \<Longrightarrow> 0 \<le> fl x"
  by (simp add: fl_def Let_def round_ties_even_nonneg)

lemma fl_normal:
  assumes "2 powi e \<le> \<bar>x\<bar>" and "\<bar>x\<bar> < 2 powi (e + 1)" and "- 1022 \<le> e"
  shows "fl x = of_int (round_ties_even (x / 2 powi (e - 52))) * 2 powi (e - 52)"
proof -
  have "0 < (2::real) powi e" by simp
  then have "0 < \<bar>x\<bar>" using assms(1) by linarith
  then have "x \<noteq> 0" by auto
  moreover have "binade x = e" using floor_log2_eq [OF assms(1,2)] assms(3) by (simp add: binade_def)
  ultimately show ?thesis by (simp add: fl_def Let_def)
qed

lemma fl_subnormal:
  assumes "\<bar>x\<bar> < 2 powi (- 1022)"
  shows "fl x = of_int (round_ties_even (x / 2 powi (- 1074))) * 2 powi (- 1074)"
proof (cases "x = 0")
  case True
  then show ?thesis using round_ties_even_of_int [of 0] by (simp add: fl_def)
next
  case False
  have "\<lfloor>log 2 \<bar>x\<bar>\<rfloor> < - 1022"
  proof (rule ccontr)
    assume "\<not> \<lfloor>log 2 \<bar>x\<bar>\<rfloor> < - 1022"
    then have "(2::real) powi (- 1022) \<le> 2 powi \<lfloor>log 2 \<bar>x\<bar>\<rfloor>"
      by (intro power_int_increasing) auto
    then show False using floor_log2_bounds [OF False] assms by linarith
  qed
  then have "binade x = - 1022" by (simp add: binade_def)
  then show ?thesis using False by (simp add: fl_def Let_def)
qed

lemma fl_dyadic:
  assumes n: "\<bar>n\<bar> < 2 ^ 53" and k: "- 1074 \<le> k"
  shows "fl (of_int n * 2 powi k) = of_int n * 2 powi k"
proof (cases "n = 0")
  case True
  then show ?thesis by (simp add: fl_zero)
next
  case False
  define x :: real where "x = of_int n * 2 powi k"
  have x0: "x \<noteq> 0" using False by (simp add: x_def)
  define b where "b = binade x"
  have absx: "\<bar>x\<bar> = of_int \<bar>n\<bar> * 2 powi k" by (simp add: x_def abs_mult)
  have "of_int \<bar>n\<bar> < (2::real) ^ 53" using n by (metis of_int_less_numeral_power_cancel_iff)
  then have "\<bar>x\<bar> < 2 ^ 53 * 2 powi k" unfolding absx by (intro mult_strict_right_mono) auto
  also have "\<dots> = 2 powi (k + 53)" by (simp add: power_int_add)
  finally have up: "\<bar>x\<bar> < 2 powi (k + 53)" .
  have "\<lfloor>log 2 \<bar>x\<bar>\<rfloor> < k + 53"
  proof (rule ccontr)
    assume "\<not> \<lfloor>log 2 \<bar>x\<bar>\<rfloor> < k + 53"
    then have "(2::real) powi (k + 53) \<le> 2 powi \<lfloor>log 2 \<bar>x\<bar>\<rfloor>"
      by (intro power_int_increasing) auto
    then show False using floor_log2_bounds [OF x0] up by linarith
  qed
  then have b: "b \<le> k + 52" using k by (simp add: b_def binade_def)
  define j where "j = nat (k + 52 - b)"
  have j: "k = (b - 52) + int j" using b by (simp add: j_def)
  have "2 powi k = 2 powi (b - 52) * (2::real) ^ j"
    unfolding j by (simp add: power_int_add)
  then have "x / 2 powi (b - 52) = of_int (n * 2 ^ j)" by (simp add: x_def)
  then have "round_ties_even (x / 2 powi (b - 52)) = n * 2 ^ j"
    by (simp only: round_ties_even_of_int)
  then have "fl x = of_int (n * 2 ^ j) * 2 powi (b - 52)"
    using x0 by (simp add: fl_def Let_def b_def)
  also have "\<dots> = of_int n * (2 powi (b - 52) * 2 ^ j)" by simp
  also have "2 powi (b - 52) * (2::real) ^ j = 2 powi k" unfolding j by (simp add: power_int_add)
  finally show ?thesis by (simp add: x_def)
qed

lemma fl_of_int: "\<bar>n\<bar> < 2 ^ 53 \<Longrightarrow> fl (of_int n) = of_int n"
  using fl_dyadic [of n 0] by simp





lemma fl_numeral: "\<bar>numeral w :: int\<bar> < 2 ^ 53 \<Longrightarrow> fl (numeral w) = numeral w"
  using fl_of_int [of "numeral w"] by simp


lemma tolerance_value: "fl (1 / 1000) = 1152921504606847 / 2 ^ 60"
  by (simp add: fl_normal [of "- 10"] round_ties_even_def)


lemma default_scale_value: "fdiv 1 15 = 4803839602528529 / 2 ^ 56"
  by (simp add: fdiv_def fl_normal [of "- 4"] round_ties_even_def)

lemma tolerance_pos: "0 < fl (1 / 1000)"
  by (simp add: tolerance_value)

lemma fsub_self: "fsub x x = 0"
  by (simp add: fsub_def fl_zero)

lemma fsub_swap: "\<bar>fsub x y\<bar> = \<bar>fsub y x\<bar>"
proof -
  have "fsub x y = fl (- (y - x))" by (simp add: fsub_def)
  then have "fsub x y = - fsub y x" by (simp only: fl_minus fsub_def)
  then show ?thesis by simp
qed

lemma fsub_max_min: "fsub (max u v) (min u v) = \<bar>fsub u v\<bar>"
proof (cases "v \<le> u")
  case True
  then have "0 \<le> fsub u v" by (simp add: fsub_def fl_nonneg)
  then show ?thesis using True by (simp add: max_def min_def)
next
  case False
  then have "0 \<le> fsub v u" by (simp add: fsub_def fl_nonneg)
  then have "fsub v u = \<bar>fsub u v\<bar>" using fsub_swap [of u v] by simp
  then show ?thesis using False by (simp add: max_def min_def)
qed

lemmas fl_ops = fadd_def fsub_def fmul_def fdiv_def

section \<open>Rotation normalisation\<close>












section \<open>Net naming\<close>

lemma collect_nets_loop_lookup:
  "collect_nets_loop nets tbl k =
     (case find (\<lambda>e. net_netNum e = k) (rev nets) of
        Some e \<Rightarrow> Some (net_netName e)
      | None \<Rightarrow> tbl k)"
  by (induction nets rule: rev_induct) (auto simp: collect_nets_loop_def)

lemma find_SomeD: "find P xs = Some x \<Longrightarrow> P x"
  by (induction xs) (auto split: if_splits)

text \<open>
  Claim C6, as amended. When the board and the net table are present, the net-naming pass
  leaves this table: a net number that some entry of the source net table resolves to is
  mapped to the name of the last such entry, which is the name the source gives it or, when
  the source gives none, the text \<open>Net-<id>\<close>; net number 0 is mapped to the empty string
  when no entry resolves to 0 and the table had no name for 0 before; every other number keeps
  what the table held before.
\<close>

theorem CollectNetsStage_table:
  assumes "kicadPcb (stage_ctx s) = Some pcb" and "netNumToName (stage_ctx s) = Some tbl"
  shows "netNumToName (stage_ctx (CollectNetsStage_step s)) =
           Some (\<lambda>k. case find (\<lambda>e. net_netNum e = k) (rev (pcb_nets pcb)) of
                        Some e \<Rightarrow>
                          Some (case nullish (net_sx_name e) (net_name e) of
                                  Some name \<Rightarrow> name
                                | None \<Rightarrow> ''Net-'' @ show_int k)
                      | None \<Rightarrow> if k = 0 \<and> tbl 0 = None then Some [] else tbl k)"
proof -
  let ?t1 = "collect_nets_loop (pcb_nets pcb) tbl"
  let ?t = "\<lambda>k. case find (\<lambda>e. net_netNum e = k) (rev (pcb_nets pcb)) of
                        Some e \<Rightarrow>
                          Some (case nullish (net_sx_name e) (net_name e) of
                                  Some name \<Rightarrow> name
                                | None \<Rightarrow> ''Net-'' @ show_int k)
                      | None \<Rightarrow> if k = 0 \<and> tbl 0 = None then Some [] else tbl k"
  have "(if ?t1 0 = None then ?t1(0 \<mapsto> []) else ?t1) k = ?t k" for k
  proof (cases "find (\<lambda>e. net_netNum e = k) (rev (pcb_nets pcb))")
    case None
    then show ?thesis by (cases "k = 0") (auto simp: collect_nets_loop_lookup)
  next
    case (Some e)
    then have "net_netNum e = k" by (rule find_SomeD)
    with Some show ?thesis by (cases "k = 0") (auto simp: collect_nets_loop_lookup net_netName_def split: option.splits)
  qed
  then have "(if ?t1 0 = None then ?t1(0 \<mapsto> []) else ?t1) = ?t" by (rule ext)
  then show ?thesis using assms by (simp add: CollectNetsStage_step_def Let_def)
qed

theorem CollectNetsStage_table_witness:
  "kicadPcb (stage_ctx gnd_stage) = Some (empty_pcb\<lparr> pcb_nets := [gnd_net, unnamed_net5] \<rparr>) \<and>
   netNumToName (stage_ctx gnd_stage) = Some Map.empty \<and>
   (case netNumToName (stage_ctx (CollectNetsStage_step gnd_stage)) of
      None \<Rightarrow> None | Some t \<Rightarrow> t 5) = Some ''Net-5'' \<and>
   (case netNumToName (stage_ctx (CollectNetsStage_step gnd_stage)) of
      None \<Rightarrow> None | Some t \<Rightarrow> t 7) = None"
  using CollectNetsStage_table [of gnd_stage "empty_pcb\<lparr> pcb_nets := [gnd_net, unnamed_net5] \<rparr>" Map.empty]
  by (simp add: gnd_stage_def empty_ctx_def empty_pcb_def gnd_net_def unnamed_net5_def
        net_netNum_def nullish_def show_int_def show_nat.simps digit_char_def)

text \<open>
  Claim C6 as stated fails: with the net table \<^verbatim>\<open>(net 0 "GND")\<close>, \<^verbatim>\<open>(net 5)\<close> the pass
  maps net number 0 to \<open>GND\<close>, the name the source gives it, and not to the empty string.
\<close>

theorem CollectNetsStage_net0_counterexample:
  "net_netNum gnd_net = 0 \<and>
   (case netNumToName (stage_ctx (CollectNetsStage_step gnd_stage)) of
      None \<Rightarrow> None | Some t \<Rightarrow> t 0) = Some ''GND'' \<and>
   (case netNumToName (stage_ctx (CollectNetsStage_step gnd_stage)) of
      None \<Rightarrow> None | Some t \<Rightarrow> t 0) \<noteq> Some []"
  by (simp add: CollectNetsStage_step_def collect_nets_loop_def gnd_stage_def empty_ctx_def
        empty_pcb_def gnd_net_def unnamed_net5_def net_netNum_def net_netName_def nullish_def
        Let_def)

section \<open>Trace aggregation\<close>

lemma ports_only_refl: "ports_only c c"
  unfolding ports_only_def by (rule exI[of _ "db_source_port (ctx_db c)"]) simp

lemma ports_only_trans: "ports_only a b \<Longrightarrow> ports_only b c \<Longrightarrow> ports_only a c"
  unfolding ports_only_def by auto

lemma ports_only_fields:
  assumes "ports_only c c'"
  shows "footprintUuidToComponentId c' = footprintUuidToComponentId c"
    and "netNumToName c' = netNumToName c"
    and "ctx_stats c' = ctx_stats c"
    and "db_source_trace (ctx_db c') = db_source_trace (ctx_db c)"
  using assms unfolding ports_only_def by auto

lemma getOrCreateSourcePort_fst:
  "fst (getOrCreateSourcePort c cid pn fp) = sourcePortId_of cid pn"
  by (simp add: getOrCreateSourcePort_def Let_def split: option.splits)

lemma getOrCreateSourcePort_ports_only:
  "ports_only c (snd (getOrCreateSourcePort c cid pn fp))"
proof (cases "find (\<lambda>sp. sp_source_port_id sp = sourcePortId_of cid pn) (db_source_port (ctx_db c))")
  case None
  then show ?thesis unfolding ports_only_def getOrCreateSourcePort_def Let_def by auto
next
  case (Some sp)
  then show ?thesis by (simp add: getOrCreateSourcePort_def ports_only_refl)
qed

lemma process_pad_net_snd:
  "snd (process_pad_net cid fp acc pad) =
     (case pad_member cid pad of None \<Rightarrow> snd acc | Some e \<Rightarrow> push_entry (snd acc) e)"
  by (auto simp: process_pad_net_def pad_member_def push_entry_def Let_def split_beta
        getOrCreateSourcePort_fst split: option.splits)

lemma process_pad_net_ports_only:
  "ports_only (fst acc) (fst (process_pad_net cid fp acc pad))"
  by (auto simp: process_pad_net_def Let_def split_beta ports_only_refl
        getOrCreateSourcePort_ports_only split: option.splits)

lemma foldl_process_pad_net:
  "snd (foldl (process_pad_net cid fp) acc pads) =
     foldl push_entry (snd acc) (List.map_filter (pad_member cid) pads) \<and>
   ports_only (fst acc) (fst (foldl (process_pad_net cid fp) acc pads))"
proof (induction pads arbitrary: acc)
  case Nil
  then show ?case by (simp add: List.map_filter_simps ports_only_refl)
next
  case (Cons p ps)
  show ?case
    using Cons.IH[of "process_pad_net cid fp acc p"]
      process_pad_net_ports_only[of acc cid fp p]
    by (auto simp: List.map_filter_simps process_pad_net_snd split: option.splits
          intro: ports_only_trans)
qed

lemma footprint_componentId_cong:
  "ports_only c c' \<Longrightarrow> footprint_componentId c' fp = footprint_componentId c fp"
  by (simp add: footprint_componentId_def ports_only_fields)

lemma footprint_members_cong:
  "ports_only c c' \<Longrightarrow> footprint_members c' = footprint_members c"
  by (rule ext) (simp add: footprint_members_def footprint_componentId_cong)

lemma processFootprintPads_char:
  "snd (processFootprintPads acc fp) = foldl push_entry (snd acc) (footprint_members (fst acc) fp) \<and>
   ports_only (fst acc) (fst (processFootprintPads acc fp))"
  by (auto simp: processFootprintPads_def footprint_members_def footprint_componentId_def
        foldl_process_pad_net ports_only_refl split: option.splits)

lemma foldl_processFootprintPads:
  "snd (foldl processFootprintPads acc fps) =
     foldl push_entry (snd acc) (concat (map (footprint_members (fst acc)) fps)) \<and>
   ports_only (fst acc) (fst (foldl processFootprintPads acc fps))"
proof (induction fps arbitrary: acc)
  case Nil
  then show ?case by (simp add: ports_only_refl)
next
  case (Cons fp fps)
  have po: "ports_only (fst acc) (fst (processFootprintPads acc fp))"
    using processFootprintPads_char by blast
  have eq: "concat (map (footprint_members (fst (processFootprintPads acc fp))) fps) =
        concat (map (footprint_members (fst acc)) fps)"
    by (simp only: footprint_members_cong[OF po])
  have IH: "snd (foldl processFootprintPads (processFootprintPads acc fp) fps) =
     foldl push_entry (snd (processFootprintPads acc fp)) (concat (map (footprint_members (fst acc)) fps))"
    and IH2: "ports_only (fst (processFootprintPads acc fp)) (fst (foldl processFootprintPads (processFootprintPads acc fp) fps))"
    using Cons.IH[of "processFootprintPads acc fp"] unfolding eq by simp_all
  show ?case
    using IH IH2 po processFootprintPads_char[of acc fp]
    by (auto intro: ports_only_trans)
qed

lemma netToPads_push_map:
  "distinct ks \<Longrightarrow> netToPads_push n r (map (\<lambda>k. (k, f k)) ks) =
     (if n \<in> set ks then map (\<lambda>k. (k, if k = n then f k @ [r] else f k)) ks
      else map (\<lambda>k. (k, f k)) ks @ [(n, [r])])"
  by (induction ks) auto

lemma first_keys_snoc:
  "first_keys (es @ [e]) = (if fst e \<in> fst ` set es then first_keys es else first_keys es @ [fst e])"
  by (simp add: first_keys_def)

lemma first_keys_distinct: "distinct (first_keys es)"
  by (simp add: first_keys_def)

lemma first_keys_set: "set (first_keys es) = fst ` set es"
  by (simp add: first_keys_def)

lemma foldl_push_entry:
  "foldl push_entry [] es =
     map (\<lambda>n. (n, map snd (filter (\<lambda>e. fst e = n) es))) (first_keys es)"
proof (induction es rule: rev_induct)
  case Nil
  then show ?case by (simp add: first_keys_def)
next
  case (snoc e es)
  let ?f = "\<lambda>n. map snd (filter (\<lambda>e. fst e = n) es)"
  have "foldl push_entry [] (es @ [e]) =
        netToPads_push (fst e) (snd e) (map (\<lambda>n. (n, ?f n)) (first_keys es))"
    by (simp only: foldl_append foldl.simps snoc.IH) (simp add: push_entry_def)
  also have "\<dots> = map (\<lambda>n. (n, map snd (filter (\<lambda>e. fst e = n) (es @ [e])))) (first_keys (es @ [e]))"
  proof (cases "fst e \<in> fst ` set es")
    case True
    then show ?thesis
      by (simp add: netToPads_push_map[OF first_keys_distinct] first_keys_set first_keys_snoc)
  next
    case False
    then have "\<forall>x\<in>set es. fst x \<noteq> fst e"
      by (metis imageI)
    then have "filter (\<lambda>x. fst x = fst e) es = []"
      by (simp add: filter_empty_conv)
    with False show ?thesis
      by (auto simp: netToPads_push_map[OF first_keys_distinct] first_keys_set first_keys_snoc)
  qed
  finally show ?case .
qed

lemma source_trace_record_cong:
  "netNumToName c' = netNumToName c \<Longrightarrow> source_trace_record c' = source_trace_record c"
  by (intro ext) (simp add: source_trace_record_def)

lemma createSourceTrace_fields:
  "netNumToName (createSourceTrace c n pads) = netNumToName c"
  "db_source_trace (ctx_db (createSourceTrace c n pads)) =
     db_source_trace (ctx_db c) @ [source_trace_record c n pads]"
  by (simp_all add: createSourceTrace_def Let_def split: option.splits)

lemma foldl_trace_net:
  assumes "distinct (map fst es)"
  shows "netNumToName (fst (foldl trace_net (c, P) es)) = netNumToName c \<and>
         db_source_trace (ctx_db (fst (foldl trace_net (c, P) es))) =
           db_source_trace (ctx_db c) @
           map (\<lambda>e. source_trace_record c (fst e) (snd e))
             (filter (\<lambda>e. 2 \<le> length (snd e) \<and> fst e \<notin> P) es)"
  using assms
proof (induction es arbitrary: c P)
  case Nil
  then show ?case by simp
next
  case (Cons e es)
  obtain n pads where e: "e = (n, pads)" by (cases e)
  have d: "distinct (map fst es)" and nn: "n \<notin> fst ` set es" using Cons.prems e by auto
  show ?case
  proof (cases "length pads < 2 \<or> n \<in> P")
    case True
    then have "trace_net (c, P) e = (c, P)" by (simp add: trace_net_def e)
    then show ?thesis using Cons.IH[OF d, of c P] True e by auto
  next
    case False
    let ?c = "createSourceTrace c n pads"
    have st: "trace_net (c, P) (n, pads) = (?c, insert n P)" using False by (simp add: trace_net_def)
    have flt: "filter (\<lambda>e. 2 \<le> length (snd e) \<and> fst e \<noteq> n \<and> fst e \<notin> P) es =
               filter (\<lambda>e. 2 \<le> length (snd e) \<and> fst e \<notin> P) es"
      using nn by (intro filter_cong) auto
    have rc: "source_trace_record ?c = source_trace_record c"
      by (rule source_trace_record_cong) (simp add: createSourceTrace_fields)
    show ?thesis
      using Cons.IH[OF d, of ?c "insert n P"] False
      by (simp add: st flt rc createSourceTrace_fields e)
  qed
qed

lemma in_set_map_filter:
  "y \<in> set (List.map_filter f xs) \<longleftrightarrow> (\<exists>x\<in>set xs. f x = Some y)"
  by (induction xs) (auto split: option.splits)

lemma pad_member_nonzero: "pad_member cid pad = Some e \<Longrightarrow> fst e \<noteq> 0"
  by (auto simp: pad_member_def split: option.splits if_splits)

lemma member_nets_first_keys: "member_nets c pcb = first_keys (all_members c pcb)"
  by (simp add: member_nets_def first_keys_def)

text \<open>
  Claim C1, as amended. When the board and the net table are present, one step of the trace
  pass appends to the trace table exactly one record for every net that has at least two
  member pads and was not traced by an earlier step of the same stage, in the order in which
  the nets first occur, and nothing else. The endpoint list of the record holds the port
  identifier of every member pad of the net, in order, so it is as long as the member list;
  an identifier that several member pads share occurs once for each of them. The nets with
  a member are pairwise different and net 0 is not among them: a pad whose net is absent or
  0 is a member of no net.
\<close>

theorem CollectSourceTracesStage_traces:
  assumes "kicadPcb (stage_ctx s) = Some pcb" and "netNumToName (stage_ctx s) = Some tbl"
  shows "db_source_trace (ctx_db (stage_ctx (CollectSourceTracesStage_step s))) =
           db_source_trace (ctx_db (stage_ctx s)) @
           map (\<lambda>n. source_trace_record (stage_ctx s) n (net_members (stage_ctx s) pcb n))
             (filter (\<lambda>n. 2 \<le> length (net_members (stage_ctx s) pcb n) \<and> n \<notin> processedNets s)
                (member_nets (stage_ctx s) pcb)) \<and>
         distinct (member_nets (stage_ctx s) pcb) \<and>
         0 \<notin> set (member_nets (stage_ctx s) pcb) \<and>
         (\<forall>n. st_connected_source_port_ids
                 (source_trace_record (stage_ctx s) n (net_members (stage_ctx s) pcb n)) =
               map pr_sourcePortId (net_members (stage_ctx s) pcb n)) \<and>
         (\<forall>cid pad. getPadNet pad = None \<or> getPadNet pad = Some 0 \<longrightarrow> pad_member cid pad = None)"
proof -
  let ?c = "stage_ctx s"
  obtain c1 m where f1: "foldl processFootprintPads (?c, []) (pcb_footprints pcb) = (c1, m)"
    by (cases "foldl processFootprintPads (?c, []) (pcb_footprints pcb)")
  have m: "m = foldl push_entry [] (all_members ?c pcb)" and po: "ports_only ?c c1"
    using foldl_processFootprintPads[of "(?c, [])" "pcb_footprints pcb"] f1
    by (simp_all add: all_members_def)
  have m': "m = map (\<lambda>n. (n, net_members ?c pcb n)) (member_nets ?c pcb)"
    unfolding m foldl_push_entry member_nets_first_keys net_members_def ..
  have dm: "distinct (map fst m)"
    unfolding m' by (simp add: comp_def member_nets_first_keys first_keys_distinct)
  obtain c2 P2 where f2: "foldl trace_net (c1, processedNets s) m = (c2, P2)"
    by (cases "foldl trace_net (c1, processedNets s) m")
  have tr: "db_source_trace (ctx_db c2) = db_source_trace (ctx_db c1) @
           map (\<lambda>e. source_trace_record c1 (fst e) (snd e))
             (filter (\<lambda>e. 2 \<le> length (snd e) \<and> fst e \<notin> processedNets s) m)"
    using foldl_trace_net[OF dm, of c1 "processedNets s"] f2 by simp
  have rc: "source_trace_record c1 = source_trace_record ?c"
    by (rule source_trace_record_cong) (simp add: ports_only_fields[OF po])
  have step: "stage_ctx (CollectSourceTracesStage_step s) = c2"
    using assms f1 f2 by (simp add: CollectSourceTracesStage_step_def Let_def)
  have "db_source_trace (ctx_db c2) = db_source_trace (ctx_db ?c) @
           map (\<lambda>n. source_trace_record ?c n (net_members ?c pcb n))
             (filter (\<lambda>n. 2 \<le> length (net_members ?c pcb n) \<and> n \<notin> processedNets s)
                (member_nets ?c pcb))"
    unfolding tr rc ports_only_fields(4)[OF po] m'
    by (simp add: filter_map comp_def)
  moreover have "0 \<notin> set (member_nets ?c pcb)"
    by (auto simp: member_nets_first_keys first_keys_set all_members_def footprint_members_def
          in_set_map_filter dest: pad_member_nonzero split: option.splits)
  moreover have "\<forall>cid pad. getPadNet pad = None \<or> getPadNet pad = Some 0 \<longrightarrow> pad_member cid pad = None"
    by (auto simp: pad_member_def split: option.splits)
  ultimately show ?thesis
    by (simp add: step member_nets_first_keys first_keys_distinct source_trace_record_def)
qed

theorem CollectSourceTracesStage_traces_witness:
  "kicadPcb (stage_ctx twin_pads_stage) = Some twin_pads_pcb \<and>
   netNumToName (stage_ctx twin_pads_stage) = Some Map.empty \<and>
   db_source_trace (ctx_db (stage_ctx (CollectSourceTracesStage_step twin_pads_stage))) =
     [source_trace_record (stage_ctx twin_pads_stage) 5
        (net_members (stage_ctx twin_pads_stage) twin_pads_pcb 5)] \<and>
   getPadNet bare_pad = None \<and> pad_member ''pcb_component_0'' bare_pad = None"
proof -
  have mn: "member_nets (stage_ctx twin_pads_stage) twin_pads_pcb = [5]"
    and nm: "length (net_members (stage_ctx twin_pads_stage) twin_pads_pcb 5) = 2"
    by (simp_all add: member_nets_def net_members_def all_members_def footprint_members_def
          footprint_componentId_def footprintUuid_def str_truthy_def pad_member_def getPadNet_def
          js_net_truthy_def twin_pads_stage_def twin_pads_pcb_def pad1_net5_def bare_pad_def
          bare_footprint_def empty_pcb_def empty_ctx_def empty_db_def)
  have gp: "getPadNet bare_pad = None"
    by (simp add: getPadNet_def js_net_truthy_def bare_pad_def)
  have h1: "kicadPcb (stage_ctx twin_pads_stage) = Some twin_pads_pcb"
    and h2: "netNumToName (stage_ctx twin_pads_stage) = Some Map.empty"
    and h3: "db_source_trace (ctx_db (stage_ctx twin_pads_stage)) = []"
    and h4: "processedNets twin_pads_stage = {}"
    by (simp_all add: twin_pads_stage_def empty_ctx_def empty_db_def)
  show ?thesis
    using CollectSourceTracesStage_traces [OF h1 h2] gp
    by (simp add: mn nm h1 h2 h3 h4)
qed

text \<open>
  Claim C1 as stated fails: on a board with one component that has two pads numbered 1, both
  on net 5, the net has two member pads and the pass emits one trace for it, but the two
  endpoints of the trace are the same identifier, so the endpoint set has one element.
\<close>

theorem CollectSourceTracesStage_twin_pads_counterexample:
  "length (net_members (stage_ctx twin_pads_stage) twin_pads_pcb 5) = 2 \<and>
   map st_connected_source_port_ids
     (db_source_trace (ctx_db (stage_ctx (CollectSourceTracesStage_step twin_pads_stage)))) =
     [[''pcb_component_0_port_1'', ''pcb_component_0_port_1'']] \<and>
   \<not> distinct [''pcb_component_0_port_1'', ''pcb_component_0_port_1''] \<and>
   card (set [''pcb_component_0_port_1'', ''pcb_component_0_port_1'']) = 1"
proof -
  have nm: "length (net_members (stage_ctx twin_pads_stage) twin_pads_pcb 5) = 2"
    by (simp add: net_members_def all_members_def footprint_members_def
          footprint_componentId_def footprintUuid_def str_truthy_def pad_member_def getPadNet_def
          js_net_truthy_def twin_pads_stage_def twin_pads_pcb_def pad1_net5_def bare_pad_def
          bare_footprint_def empty_pcb_def empty_ctx_def empty_db_def)
  have "map st_connected_source_port_ids
     (db_source_trace (ctx_db (stage_ctx (CollectSourceTracesStage_step twin_pads_stage)))) =
     [[''pcb_component_0_port_1'', ''pcb_component_0_port_1'']]"
    by (simp add: CollectSourceTracesStage_step_def processFootprintPads_def process_pad_net_def
          getOrCreateSourcePort_def sourcePortId_of_def createSourceTrace_def trace_net_def
          source_trace_record_def getFootprintReference_def str_or_def
          footprintUuid_def str_truthy_def getPadNet_def Let_def
          js_net_truthy_def twin_pads_stage_def twin_pads_pcb_def pad1_net5_def bare_pad_def
          bare_footprint_def empty_pcb_def empty_ctx_def empty_db_def)
  with nm show ?thesis by simp
qed

section \<open>Arc tessellation\<close>

















section \<open>Outline reconstruction\<close>

lemma findIndex_map: "findIndex P (map g xs) = findIndex (\<lambda>x. P (g x)) xs"
  by (induction xs) auto

lemma splice_out_map: "splice_out i (map g xs) = map g (splice_out i xs)"
  by (simp add: splice_out_def take_map drop_map)

lemma insert_all_map: "insert_all (g x) (map g xs) = map (map g) (insert_all x xs)"
  by (induction xs) auto

lemma perms_map: "perms (map g xs) = map (map g) (perms xs)"
  by (induction xs) (auto simp: map_concat insert_all_map comp_def)

lemma orientations_map:
  "orientations (map (map_prod f f) ss) = map (map (map_prod f f)) (orientations ss)"
  by (induction ss) (auto simp: map_concat comp_def prod.swap_def)

lemma arrangements_map:
  "arrangements (map (map_prod f f) es) = map (map (map_prod f f)) (arrangements es)"
  by (simp add: arrangements_def perms_map map_concat comp_def orientations_map)

lemma insert_all_mem: "as @ x # bs \<in> set (insert_all x (as @ bs))"
  by (induction as) (auto, cases bs, auto)

lemma perms_complete: "mset ps = mset es \<Longrightarrow> ps \<in> set (perms es)"
proof (induction es arbitrary: ps)
  case Nil
  then show ?case by simp
next
  case (Cons x es)
  then have "x \<in> set ps" by (metis list.set_intros(1) mset_eq_setD)
  then obtain as bs where ps: "ps = as @ x # bs" by (meson split_list)
  with Cons.prems have "mset (as @ bs) = mset es" by simp
  then have "as @ bs \<in> set (perms es)" by (rule Cons.IH)
  then show ?case using insert_all_mem[of as x bs] ps by auto
qed

lemma orientations_complete:
  "list_all2 (\<lambda>seg side. seg = side \<or> seg = prod.swap side) rs ss \<Longrightarrow> rs \<in> set (orientations ss)"
  by (induction rs ss rule: list_all2_induct) auto

lemma arrangements_complete:
  assumes "mset sides = mset es"
    and "list_all2 (\<lambda>seg side. seg = side \<or> seg = prod.swap side) segs sides"
  shows "segs \<in> set (arrangements es)"
  using perms_complete[OF assms(1)] orientations_complete[OF assms(2)]
  by (auto simp: arrangements_def)

lemma closed_chain_arrangements:
  "list_all (\<lambda>s. closed_chain (chain_segments (=) s)) (arrangements corner_cycle)"
  by code_simp

lemma chain_loop_map:
  assumes "\<And>p q. eq' (f p) (f q) = eq p q" and "ord \<noteq> []"
  shows "chain_loop eq' (map (map_prod f f) ord) (map (map_prod f f) rem) =
         map (map_prod f f) (chain_loop eq ord rem)"
  using assms
proof (induction eq ord rem rule: chain_loop.induct)
  case (1 eq ord rem)
  let ?g = "map_prod f f"
  note eqf = "1.prems"(1)
  show ?case
  proof (cases "rem = []")
    case True
    then show ?thesis by (simp add: chain_loop.simps)
  next
    case False
    have le: "snd (last (map ?g ord)) = f (snd (last ord))"
      using "1.prems"(2) by (simp add: last_map)
    have fi1: "findIndex (\<lambda>seg. eq' (fst seg) (f (snd (last ord)))) (map ?g rem) =
               findIndex (\<lambda>seg. eq (fst seg) (snd (last ord))) rem"
      by (simp add: findIndex_map eqf)
    have fi2: "findIndex (\<lambda>seg. eq' (snd seg) (f (snd (last ord)))) (map ?g rem) =
               findIndex (\<lambda>seg. eq (snd seg) (snd (last ord))) rem"
      by (simp add: findIndex_map eqf)
    show ?thesis
    proof (cases "findIndex (\<lambda>seg. eq (fst seg) (snd (last ord))) rem")
      case (Some i)
      then have i: "i < length rem" by (rule findIndex_less)
      have IH: "chain_loop eq' (map ?g (ord @ [rem ! i])) (map ?g (splice_out i rem)) =
                map ?g (chain_loop eq (ord @ [rem ! i]) (splice_out i rem))"
        by (rule "1.IH"(3)[OF False refl Some eqf]) simp
      show ?thesis
        using False Some i IH
        by (subst chain_loop.simps, subst (2) chain_loop.simps)
           (simp add: le fi1 Let_def splice_out_map)
    next
      case None
      note N1 = None
      show ?thesis
      proof (cases "findIndex (\<lambda>seg. eq (snd seg) (snd (last ord))) rem")
        case (Some i)
        then have i: "i < length rem" by (rule findIndex_less)
        have IH: "chain_loop eq' (map ?g (ord @ [(snd (rem ! i), fst (rem ! i))])) (map ?g (splice_out i rem)) =
                  map ?g (chain_loop eq (ord @ [(snd (rem ! i), fst (rem ! i))]) (splice_out i rem))"
          by (rule "1.IH"(2)[OF False refl N1 Some eqf]) simp
        show ?thesis
          using False N1 Some i IH
          by (subst chain_loop.simps, subst (2) chain_loop.simps)
             (simp add: le fi1 fi2 Let_def splice_out_map)
      next
        case None
        have IH: "chain_loop eq' (map ?g (ord @ [hd rem])) (map ?g (tl rem)) =
                  map ?g (chain_loop eq (ord @ [hd rem]) (tl rem))"
          by (rule "1.IH"(1)[OF False refl N1 None eqf]) simp
        show ?thesis
          using False N1 None IH
          by (subst chain_loop.simps, subst (2) chain_loop.simps)
             (simp add: le fi1 fi2 Let_def hd_map map_tl)
      qed
    qed
  qed
qed

lemma chain_segments_map:
  assumes "\<And>p q. eq' (f p) (f q) = eq p q"
  shows "chain_segments eq' (map (map_prod f f) segs) = map (map_prod f f) (chain_segments eq segs)"
proof (cases segs)
  case Nil
  then show ?thesis by (simp add: chain_segments_def)
next
  case (Cons x xs)
  have "chain_loop eq' (map (map_prod f f) [x]) (map (map_prod f f) xs) =
        map (map_prod f f) (chain_loop eq [x] xs)"
    by (rule chain_loop_map) (simp_all add: assms)
  with Cons show ?thesis by (simp add: chain_segments_def)
qed

lemma corner_UNIV: "UNIV = {Corner_A, Corner_B, Corner_C, Corner_D}"
  by (auto intro: corner.exhaust)

lemma pointsEqualKicad_corner:
  assumes "fl (1 / 1000) \<le> \<bar>fsub x1 x0\<bar>" and "fl (1 / 1000) \<le> \<bar>fsub y1 y0\<bar>"
  shows "pointsEqualKicad (corner_point x0 y0 x1 y1 a) (corner_point x0 y0 x1 y1 b) = (a = b)"
proof -
  have "\<not> \<bar>fsub x0 x1\<bar> < fl (1 / 1000)" "\<not> \<bar>fsub x1 x0\<bar> < fl (1 / 1000)"
       "\<not> \<bar>fsub y0 y1\<bar> < fl (1 / 1000)" "\<not> \<bar>fsub y1 y0\<bar> < fl (1 / 1000)"
    using assms fsub_swap [of x0 x1] fsub_swap [of y0 y1] by linarith+
  then show ?thesis
    by (cases a; cases b) (simp_all add: pointsEqualKicad_def fsub_self tolerance_pos)
qed

lemma applyToPoint_axes:
  assumes "m_b m = 0" and "m_c m = 0"
  shows "fst (applyToPoint m (x, y)) = fst (applyToPoint m (x, y'))"
    and "snd (applyToPoint m (x, y)) = snd (applyToPoint m (x', y))"
  using assms by (simp_all add: applyToPoint_def fmul_def fl_zero)

lemma pointsEqual_corner:
  assumes b: "m_b m = 0" and c: "m_c m = 0"
    and w: "fl (1 / 1000) \<le> rect_image_width m x0 y0 x1 y1"
    and h: "fl (1 / 1000) \<le> rect_image_height m x0 y0 x1 y1"
  shows "pointsEqual (applyToPoint m (corner_point x0 y0 x1 y1 a))
           (applyToPoint m (corner_point x0 y0 x1 y1 b)) = (a = b)"
proof -
  define X0 where "X0 = fst (applyToPoint m (x0, y0))"
  define X1 where "X1 = fst (applyToPoint m (x1, y0))"
  define Y0 where "Y0 = snd (applyToPoint m (x0, y0))"
  define Y1 where "Y1 = snd (applyToPoint m (x0, y1))"
  have f: "fst (applyToPoint m (x0, y1)) = X0" "fst (applyToPoint m (x1, y1)) = X1"
    "fst (applyToPoint m (x0, y0)) = X0" "fst (applyToPoint m (x1, y0)) = X1"
    using applyToPoint_axes(1) [OF b c] by (simp_all add: X0_def X1_def)
  have s: "snd (applyToPoint m (x1, y0)) = Y0" "snd (applyToPoint m (x1, y1)) = Y1"
    "snd (applyToPoint m (x0, y0)) = Y0" "snd (applyToPoint m (x0, y1)) = Y1"
    using applyToPoint_axes(2) [OF b c] by (simp_all add: Y0_def Y1_def)
  have n: "\<not> \<bar>fsub X0 X1\<bar> < fl (1 / 1000)" "\<not> \<bar>fsub X1 X0\<bar> < fl (1 / 1000)"
       "\<not> \<bar>fsub Y0 Y1\<bar> < fl (1 / 1000)" "\<not> \<bar>fsub Y1 Y0\<bar> < fl (1 / 1000)"
    using w h fsub_swap [of X0 X1] fsub_swap [of Y0 Y1]
    unfolding rect_image_width_def rect_image_height_def X0_def [symmetric] X1_def [symmetric]
      Y0_def [symmetric] Y1_def [symmetric]
    by linarith+
  show ?thesis
    by (cases a; cases b) (simp_all add: pointsEqual_def f s n fsub_self tolerance_pos)
qed

lemma length4E:
  assumes "length c = 4"
  obtains s0 s1 s2 s3 where "c = [s0, s1, s2, s3]"
  using assms by (auto simp: length_Suc_conv numeral_eq_Suc)

lemma outline_points_closed_chain:
  assumes pe: "\<And>a b. pointsEqual (applyToPoint m (pt a)) (applyToPoint m (pt b)) = (a = b)"
    and cc: "closed_chain c"
  shows "outline_points m (map (map_prod pt pt) c) = map (\<lambda>k. applyToPoint m (pt k)) (map fst c)"
proof -
  from cc obtain s0 s1 s2 s3 where c: "c = [s0, s1, s2, s3]"
    unfolding closed_chain_def by (auto elim: length4E)
  from cc have d: "fst s0 \<noteq> fst s1" "fst s1 \<noteq> fst s2" "fst s2 \<noteq> fst s3" and e: "snd s3 = fst s0"
    unfolding closed_chain_def c by auto
  show ?thesis
    unfolding c by (simp add: outline_points_def outline_start_points_def Let_def pe d e)
qed

lemma closed_chain_set:
  assumes "closed_chain c"
  shows "set (map fst c) = {Corner_A, Corner_B, Corner_C, Corner_D}"
proof -
  have "{Corner_A, Corner_B, Corner_C, Corner_D} \<subseteq> set (map fst c)"
    using assms by (simp add: closed_chain_def)
  moreover have "set (map fst c) \<subseteq> {Corner_A, Corner_B, Corner_C, Corner_D}"
    using corner_UNIV by blast
  ultimately show ?thesis by blast
qed

lemma calculateWidth_corners:
  assumes "m_b m = 0" and "m_c m = 0" and "set ks = {Corner_A, Corner_B, Corner_C, Corner_D}"
  shows "calculateWidth (map (\<lambda>k. applyToPoint m (corner_point x0 y0 x1 y1 k)) ks) =
         rect_image_width m x0 y0 x1 y1"
proof -
  define X0 where "X0 = fst (applyToPoint m (x0, y0))"
  define X1 where "X1 = fst (applyToPoint m (x1, y0))"
  have f: "fst (applyToPoint m (x0, y1)) = X0" "fst (applyToPoint m (x1, y1)) = X1"
    "fst (applyToPoint m (x0, y0)) = X0" "fst (applyToPoint m (x1, y0)) = X1"
    using applyToPoint_axes(1) [OF assms(1,2)] by (simp_all add: X0_def X1_def)
  have ne: "ks \<noteq> []" using assms(3) by auto
  have "set (map fst (map (\<lambda>k. applyToPoint m (corner_point x0 y0 x1 y1 k)) ks)) =
        (\<lambda>k. fst (applyToPoint m (corner_point x0 y0 x1 y1 k))) ` set ks"
    by (simp add: image_image)
  also have "\<dots> = {X1, X0}"
    unfolding assms(3) by (auto simp: f)
  finally have s: "set (map fst (map (\<lambda>k. applyToPoint m (corner_point x0 y0 x1 y1 k)) ks)) =
      {X1, X0}" .
  show ?thesis
    unfolding calculateWidth_def s rect_image_width_def X0_def [symmetric] X1_def [symmetric]
    using ne by (simp add: fsub_max_min)
qed

lemma calculateHeight_corners:
  assumes "m_b m = 0" and "m_c m = 0" and "set ks = {Corner_A, Corner_B, Corner_C, Corner_D}"
  shows "calculateHeight (map (\<lambda>k. applyToPoint m (corner_point x0 y0 x1 y1 k)) ks) =
         rect_image_height m x0 y0 x1 y1"
proof -
  define Y0 where "Y0 = snd (applyToPoint m (x0, y0))"
  define Y1 where "Y1 = snd (applyToPoint m (x0, y1))"
  have f: "snd (applyToPoint m (x1, y0)) = Y0" "snd (applyToPoint m (x1, y1)) = Y1"
    "snd (applyToPoint m (x0, y0)) = Y0" "snd (applyToPoint m (x0, y1)) = Y1"
    using applyToPoint_axes(2) [OF assms(1,2)] by (simp_all add: Y0_def Y1_def)
  have ne: "ks \<noteq> []" using assms(3) by auto
  have "set (map snd (map (\<lambda>k. applyToPoint m (corner_point x0 y0 x1 y1 k)) ks)) =
        (\<lambda>k. snd (applyToPoint m (corner_point x0 y0 x1 y1 k))) ` set ks"
    by (simp add: image_image)
  also have "\<dots> = {Y1, Y0}"
    unfolding assms(3) by (auto simp: f)
  finally have s: "set (map snd (map (\<lambda>k. applyToPoint m (corner_point x0 y0 x1 y1 k)) ks)) =
      {Y1, Y0}" .
  show ?thesis
    unfolding calculateHeight_def s rect_image_height_def Y0_def [symmetric] Y1_def [symmetric]
    using ne by (simp add: fsub_max_min)
qed

lemma rectangle_outline_points:
  assumes dr: "draws_rectangle x0 y0 x1 y1 segs"
    and w: "fl (1 / 1000) \<le> \<bar>fsub x1 x0\<bar>" and h: "fl (1 / 1000) \<le> \<bar>fsub y1 y0\<bar>"
    and b: "m_b m = 0" and c: "m_c m = 0"
    and wo: "fl (1 / 1000) \<le> rect_image_width m x0 y0 x1 y1"
    and ho: "fl (1 / 1000) \<le> rect_image_height m x0 y0 x1 y1"
  shows "\<exists>ks. outline_points m (chain_segments pointsEqualKicad segs) =
                map (\<lambda>k. applyToPoint m (corner_point x0 y0 x1 y1 k)) ks \<and>
              length ks = 4 \<and> set ks = {Corner_A, Corner_B, Corner_C, Corner_D}"
proof -
  let ?pt = "corner_point x0 y0 x1 y1"
  let ?g = "map_prod ?pt ?pt"
  from dr have "segs \<in> set (arrangements (map ?g corner_cycle))"
    unfolding draws_rectangle_def rect_sides_def by (auto intro: arrangements_complete)
  then obtain isegs where isegs: "isegs \<in> set (arrangements corner_cycle)" and segs: "segs = map ?g isegs"
    unfolding arrangements_map by auto
  let ?c = "chain_segments (=) isegs"
  have cc: "closed_chain ?c"
    using closed_chain_arrangements isegs by (auto simp: list_all_iff)
  have ch: "chain_segments pointsEqualKicad segs = map ?g ?c"
    unfolding segs by (rule chain_segments_map) (rule pointsEqualKicad_corner[OF w h])
  have "outline_points m (map ?g ?c) = map (\<lambda>k. applyToPoint m (?pt k)) (map fst ?c)"
    by (rule outline_points_closed_chain[OF _ cc]) (rule pointsEqual_corner[OF b c wo ho])
  moreover have "length (map fst ?c) = 4" using cc by (simp add: closed_chain_def)
  ultimately show ?thesis using closed_chain_set[OF cc] ch by metis
qed

lemma chain_loop_Nil: "chain_loop eq ord [] = ord"
  by (simp add: chain_loop.simps)

lemma chain_loop_Cons:
  "chain_loop eq ord (r # rs) =
        (let lastEnd = snd (last ord) in
         case findIndex (\<lambda>seg. eq (fst seg) lastEnd) (r # rs) of
           Some i \<Rightarrow> chain_loop eq (ord @ [(r # rs) ! i]) (splice_out i (r # rs))
         | None \<Rightarrow>
             (case findIndex (\<lambda>seg. eq (snd seg) lastEnd) (r # rs) of
                Some i \<Rightarrow>
                  chain_loop eq (ord @ [(snd ((r # rs) ! i), fst ((r # rs) ! i))]) (splice_out i (r # rs))
              | None \<Rightarrow> chain_loop eq (ord @ [hd (r # rs)]) (tl (r # rs))))"
  by (subst chain_loop.simps) (simp only: list.distinct if_False)

lemma flip_matrix_image:
  "applyToPoint flip_matrix (0, 0) = (0, 0)"
  "applyToPoint flip_matrix (30, 0) = (30, 0)"
  "applyToPoint flip_matrix (0, 20) = (0, - 20)"
  by (simp_all add: applyToPoint_def flip_matrix_def fl_ops fl_zero fl_numeral fl_minus)

lemma fl_2048: "fl (1 / 2048) = 1 / 2048"
  using fl_dyadic [of 1 "- 11"] by simp

text \<open>
  Claim C9, as amended. Let the edge lines be the four sides of an axis-parallel rectangle,
  in any order and each in either direction, and let the transform only scale and translate
  along the axes (its coefficients \<open>b\<close> and \<open>c\<close> are 0). Let both sides of the rectangle be at
  least the tolerance \<^verbatim>\<open>0.001\<close> long as the code measures them, by the rounded difference
  of the coordinates of two corners, in source space and between the images of the corners
  under the transform; and let the coordinates and the coefficients be at most \<open>2\<^sup>1\<^sup>0\<^sup>0\<close> in
  magnitude, so that nothing overflows. Then the outline reconstructor emits a polyline of
  exactly 4 points, the images of the four corners, and the bounding box computed from the
  emitted points is the width and the height of the image of the rectangle. On an empty
  board table the board record carries these points, this width and this height.
\<close>

theorem createBoardOutline_rectangle:
  assumes "draws_rectangle x0 y0 x1 y1 (map line_segment lines)"
    and "fl (1 / 1000) \<le> \<bar>fsub x1 x0\<bar>" and "fl (1 / 1000) \<le> \<bar>fsub y1 y0\<bar>"
    and "m_b m = 0" and "m_c m = 0"
    and "fl (1 / 1000) \<le> rect_image_width m x0 y0 x1 y1"
    and "fl (1 / 1000) \<le> rect_image_height m x0 y0 x1 y1"
    and "k2cMatPcb c = Some m" and "db_pcb_board (ctx_db c) = []"
    and "list_all (\<lambda>v. \<bar>v\<bar> \<le> 2 ^ 100) [x0, y0, x1, y1, m_a m, m_d m, m_e m, m_f m]"
  shows "db_pcb_board (ctx_db (createBoardOutline c lines)) =
           [\<lparr> brd_outline = board_outline_points m lines,
              brd_width = rect_image_width m x0 y0 x1 y1,
              brd_height = rect_image_height m x0 y0 x1 y1 \<rparr>] \<and>
         length (board_outline_points m lines) = 4 \<and>
         set (board_outline_points m lines) =
           {applyToPoint m (x0, y0), applyToPoint m (x1, y0), applyToPoint m (x1, y1),
            applyToPoint m (x0, y1)} \<and>
         calculateWidth (board_outline_points m lines) = rect_image_width m x0 y0 x1 y1 \<and>
         calculateHeight (board_outline_points m lines) = rect_image_height m x0 y0 x1 y1"
proof -
  obtain ks where pts: "board_outline_points m lines =
                map (\<lambda>k. applyToPoint m (corner_point x0 y0 x1 y1 k)) ks"
    and len: "length ks = 4" and ks: "set ks = {Corner_A, Corner_B, Corner_C, Corner_D}"
    using rectangle_outline_points[OF assms(1-7)] unfolding board_outline_points_def by blast
  have w: "calculateWidth (board_outline_points m lines) = rect_image_width m x0 y0 x1 y1"
    unfolding pts by (rule calculateWidth_corners[OF assms(4,5) ks])
  have h: "calculateHeight (board_outline_points m lines) = rect_image_height m x0 y0 x1 y1"
    unfolding pts by (rule calculateHeight_corners[OF assms(4,5) ks])
  have l: "length (board_outline_points m lines) = 4" unfolding pts using len by simp
  have s: "set (board_outline_points m lines) =
           {applyToPoint m (x0, y0), applyToPoint m (x1, y0), applyToPoint m (x1, y1),
            applyToPoint m (x0, y1)}"
    unfolding pts by (simp add: ks)
  show ?thesis
    using assms(8,9) w h l s by (simp add: createBoardOutline_def Let_def)
qed

theorem createBoardOutline_rectangle_witness:
  "draws_rectangle 0 0 30 20 (map line_segment unit_rect_lines) \<and>
   db_pcb_board (ctx_db (createBoardOutline board_ctx unit_rect_lines)) =
     [\<lparr> brd_outline = board_outline_points flip_matrix unit_rect_lines,
        brd_width = 30, brd_height = 20 \<rparr>] \<and>
   length (board_outline_points flip_matrix unit_rect_lines) = 4"
proof -
  have "mset [((0, 0), (30, 0)), ((0, 20), (0, 0)), ((30, 0), (30, 20)), ((30, 20), (0, 20))] =
        mset (rect_sides 0 0 30 20) \<and>
        list_all2 (\<lambda>seg side. seg = side \<or> seg = prod.swap side)
          (map line_segment unit_rect_lines)
          [((0, 0), (30, 0)), ((0, 20), (0, 0)), ((30, 0), (30, 20)), ((30, 20), (0::real, 20::real))]"
    by (simp add: rect_sides_def corner_cycle_def unit_rect_lines_def edge_line_def line_segment_def)
  then have dr: "draws_rectangle 0 0 30 20 (map line_segment unit_rect_lines)"
    unfolding draws_rectangle_def by blast
  have wh: "rect_image_width flip_matrix 0 0 30 20 = 30" "rect_image_height flip_matrix 0 0 30 20 = 20"
    by (simp_all add: rect_image_width_def rect_image_height_def flip_matrix_image fsub_def
        fl_numeral fl_minus)
  have m: "fl (1 / 1000) \<le> \<bar>fsub 30 0\<bar>" "fl (1 / 1000) \<le> \<bar>fsub 20 0\<bar>"
    "m_b flip_matrix = 0" "m_c flip_matrix = 0"
    "fl (1 / 1000) \<le> rect_image_width flip_matrix 0 0 30 20"
    "fl (1 / 1000) \<le> rect_image_height flip_matrix 0 0 30 20"
    unfolding wh by (simp_all add: flip_matrix_def fsub_def fl_numeral tolerance_value)
  have c: "k2cMatPcb board_ctx = Some flip_matrix" "db_pcb_board (ctx_db board_ctx) = []"
    "list_all (\<lambda>v. \<bar>v\<bar> \<le> 2 ^ 100)
       [0, 0, 30, 20, m_a flip_matrix, m_d flip_matrix, m_e flip_matrix, m_f flip_matrix]"
    by (simp_all add: board_ctx_def empty_ctx_def empty_db_def flip_matrix_def)
  show ?thesis
    using dr createBoardOutline_rectangle[OF dr m c] by (simp add: wh)
qed

text \<open>
  Claim C9 as stated fails: the four sides of the rectangle from \<open>(0, 0)\<close> to
  \<open>(1/2048, 10)\<close>, end to end, reconstruct to a polyline of 2 points, because corners
  closer than the tolerance \<^verbatim>\<open>0.001\<close> count as one point.
\<close>

theorem createBoardOutline_narrow_counterexample:
  "draws_rectangle 0 0 (1 / 2048) 10 (map line_segment narrow_rect_lines) \<and>
   board_outline_points flip_matrix narrow_rect_lines = [(0, 0), (1 / 2048, - 10)] \<and>
   length (board_outline_points flip_matrix narrow_rect_lines) = 2"
proof -
  have "mset (rect_sides 0 0 (1 / 2048) 10) = mset (rect_sides 0 0 (1 / 2048) 10) \<and>
        list_all2 (\<lambda>seg side. seg = side \<or> seg = prod.swap side)
          (map line_segment narrow_rect_lines) (rect_sides 0 0 (1 / 2048) 10)"
    by (simp add: rect_sides_def corner_cycle_def narrow_rect_lines_def edge_line_def line_segment_def)
  then have dr: "draws_rectangle 0 0 (1 / 2048) 10 (map line_segment narrow_rect_lines)"
    unfolding draws_rectangle_def by blast
  have "board_outline_points flip_matrix narrow_rect_lines = [(0, 0), (1 / 2048, - 10)]"
    by (simp add: board_outline_points_def chain_segments_def chain_loop_Nil chain_loop_Cons
          splice_out_def pointsEqualKicad_def pointsEqual_def outline_points_def
          outline_start_points_def applyToPoint_def flip_matrix_def
          narrow_rect_lines_def edge_line_def line_segment_def Let_def
          fl_ops fl_zero fl_numeral fl_minus fl_2048 tolerance_value)
  with dr show ?thesis by simp
qed

section \<open>Pads without a number\<close>

lemma bump_pads_db: "ctx_db (bump_pads c) = ctx_db c"
  by (simp add: bump_pads_def split: option.splits)

lemma pad_without_number_records:
  assumes "pad_number pad = None"
  shows "smt_port_hints (smtpad_record dll pad cid gp sz sh) = [None]"
    and "ph_port_hints (plated_hole_record pad cid gp sz dr sh rt) = [None]"
    and "smtpad_record dll (pad\<lparr>pad_number := Some n\<rparr>) cid gp sz sh =
           (smtpad_record dll pad cid gp sz sh)\<lparr>smt_port_hints := [Some (pad_number_toString n)]\<rparr>"
    and "plated_hole_record (pad\<lparr>pad_number := Some n\<rparr>) cid gp sz dr sh rt =
           (plated_hole_record pad cid gp sz dr sh rt)\<lparr>ph_port_hints := [Some (pad_number_toString n)]\<rparr>"
proof -
  have l: "pad_layer_names (pad\<lparr>pad_number := Some n\<rparr>) = pad_layer_names pad"
    by (simp add: pad_layer_names_def)
  have p: "custom_polygon (pad\<lparr>pad_number := Some n\<rparr>) = custom_polygon pad"
    by (simp add: custom_polygon_def split: option.splits)
  have s: "pad_number_string pad = None"
    "pad_number_string (pad\<lparr>pad_number := Some n\<rparr>) = Some (pad_number_toString n)"
    using assms by (simp_all add: pad_number_string_def)
  show "smt_port_hints (smtpad_record dll pad cid gp sz sh) = [None]"
    by (simp add: smtpad_record_def s Let_def split: option.splits)
  show "ph_port_hints (plated_hole_record pad cid gp sz dr sh rt) = [None]"
    by (simp add: plated_hole_record_def s Let_def)
  show "smtpad_record dll (pad\<lparr>pad_number := Some n\<rparr>) cid gp sz sh =
           (smtpad_record dll pad cid gp sz sh)\<lparr>smt_port_hints := [Some (pad_number_toString n)]\<rparr>"
    by (simp add: smtpad_record_def s l p Let_def split: option.splits)
  show "plated_hole_record (pad\<lparr>pad_number := Some n\<rparr>) cid gp sz dr sh rt =
           (plated_hole_record pad cid gp sz dr sh rt)\<lparr>ph_port_hints := [Some (pad_number_toString n)]\<rparr>"
    by (simp add: plated_hole_record_def s Let_def)
qed

lemma insert_tables:
  "db_pcb_port (ctx_db (insert_smtpad c r1)) = db_pcb_port (ctx_db c)"
  "db_pcb_port (ctx_db (insert_hole c r2)) = db_pcb_port (ctx_db c)"
  "db_pcb_port (ctx_db (insert_plated_hole c r3)) = db_pcb_port (ctx_db c)"
  "db_pcb_smtpad (ctx_db (insert_smtpad c r1)) = db_pcb_smtpad (ctx_db c) @ [r1]"
  "db_pcb_smtpad (ctx_db (insert_hole c r2)) = db_pcb_smtpad (ctx_db c)"
  "db_pcb_smtpad (ctx_db (insert_plated_hole c r3)) = db_pcb_smtpad (ctx_db c)"
  "db_pcb_hole (ctx_db (insert_smtpad c r1)) = db_pcb_hole (ctx_db c)"
  "db_pcb_hole (ctx_db (insert_hole c r2)) = db_pcb_hole (ctx_db c) @ [r2]"
  "db_pcb_hole (ctx_db (insert_plated_hole c r3)) = db_pcb_hole (ctx_db c)"
  "db_pcb_plated_hole (ctx_db (insert_smtpad c r1)) = db_pcb_plated_hole (ctx_db c)"
  "db_pcb_plated_hole (ctx_db (insert_hole c r2)) = db_pcb_plated_hole (ctx_db c)"
  "db_pcb_plated_hole (ctx_db (insert_plated_hole c r3)) = db_pcb_plated_hole (ctx_db c) @ [r3]"
  by (simp_all add: insert_smtpad_def insert_hole_def insert_plated_hole_def Let_def)

text \<open>
  Claim C10, as amended. With the board transform present, a pad without a number, other
  than a plated through-hole pad whose drill is \<^verbatim>\<open>null\<close>, is processed without an exception:
  the port table stays as it was and exactly one geometry record is appended, to the table
  of SMD pads, of holes or of plated holes according to the type of the pad. The record is
  the one that the pad would get with a number, but for its port hint, which is the single
  absent value.
\<close>

theorem processPad_without_number:
  assumes "pad_number pad = None" and "k2cMatPcb c = Some m"
    and "pad_padType_of pad = ''smd'' \<or> pad_padType_of pad = ''np_thru_hole'' \<or>
         pad_drill pad \<noteq> Some DrillNull"
  shows
    "let globalPos = pad_globalPos m pad pos rot;
         padSize = pad_size_xy (pad_size pad);
         smtpad = smtpad_record dll pad cid globalPos padSize (pad_shape_of pad);
         hole = hole_record globalPos (pad_drill pad);
         plated = plated_hole_record pad cid globalPos padSize (pad_drill pad) (pad_shape_of pad)
                    (pad_totalRotation pad rot);
         c' = (if pad_padType_of pad = ''smd'' then bump_pads (insert_smtpad c smtpad)
               else if pad_padType_of pad = ''np_thru_hole'' then insert_hole c hole
               else bump_pads (insert_plated_hole c plated))
     in processPad dll c pad cid pos rot = Inr c' \<and>
        db_pcb_port (ctx_db c') = db_pcb_port (ctx_db c) \<and>
        db_pcb_smtpad (ctx_db c') =
          db_pcb_smtpad (ctx_db c) @ (if pad_padType_of pad = ''smd'' then [smtpad] else []) \<and>
        db_pcb_hole (ctx_db c') =
          db_pcb_hole (ctx_db c) @
          (if pad_padType_of pad \<noteq> ''smd'' \<and> pad_padType_of pad = ''np_thru_hole'' then [hole] else []) \<and>
        db_pcb_plated_hole (ctx_db c') =
          db_pcb_plated_hole (ctx_db c) @
          (if pad_padType_of pad \<noteq> ''smd'' \<and> pad_padType_of pad \<noteq> ''np_thru_hole'' then [plated] else []) \<and>
        smt_port_hints smtpad = [None] \<and> ph_port_hints plated = [None] \<and>
        smtpad_record dll (pad\<lparr>pad_number := Some n\<rparr>) cid globalPos padSize (pad_shape_of pad) =
          smtpad\<lparr>smt_port_hints := [Some (pad_number_toString n)]\<rparr> \<and>
        plated_hole_record (pad\<lparr>pad_number := Some n\<rparr>) cid globalPos padSize (pad_drill pad)
            (pad_shape_of pad) (pad_totalRotation pad rot) =
          plated\<lparr>ph_port_hints := [Some (pad_number_toString n)]\<rparr>"
proof -
  have s: "pad_number_string pad = None" using assms(1) by (simp add: pad_number_string_def)
  have run: "processPad dll c pad cid pos rot =
      Inr (if pad_padType_of pad = ''smd''
           then bump_pads (insert_smtpad c (smtpad_record dll pad cid (pad_globalPos m pad pos rot)
                  (pad_size_xy (pad_size pad)) (pad_shape_of pad)))
           else if pad_padType_of pad = ''np_thru_hole''
           then insert_hole c (hole_record (pad_globalPos m pad pos rot) (pad_drill pad))
           else bump_pads (insert_plated_hole c (plated_hole_record pad cid (pad_globalPos m pad pos rot)
                  (pad_size_xy (pad_size pad)) (pad_drill pad) (pad_shape_of pad)
                  (pad_totalRotation pad rot))))"
    using assms(3)
    by (auto simp: processPad_def assms(2) s Let_def createSmdPad_def createNpthHole_def
        createPlatedHole_def)
  show ?thesis
    unfolding Let_def run
    by (simp add: bump_pads_db insert_tables pad_without_number_records [OF assms(1)])
qed

theorem processPad_without_number_witness:
  "pad_number bare_pad = None \<and> k2cMatPcb board_ctx = Some flip_matrix \<and>
   pad_drill bare_pad \<noteq> Some DrillNull \<and>
   (\<exists>c'. processPad first_layer board_ctx bare_pad ''pcb_component_0'' (0, 0) 0 = Inr c' \<and>
      db_pcb_port (ctx_db c') = [] \<and>
      db_pcb_plated_hole (ctx_db c') =
        [plated_hole_record bare_pad ''pcb_component_0''
           (pad_globalPos flip_matrix bare_pad (0, 0) 0) (1, 1) None ''circle''
           (pad_totalRotation bare_pad 0)])"
proof -
  have h: "pad_number bare_pad = None" "k2cMatPcb board_ctx = Some flip_matrix"
    "pad_drill bare_pad \<noteq> Some DrillNull" "pad_drill bare_pad = None"
    "pad_padType_of bare_pad = ''thru_hole''" "pad_shape_of bare_pad = ''circle''"
    "pad_size_xy (pad_size bare_pad) = (1, 1)"
    "db_pcb_port (ctx_db board_ctx) = []" "db_pcb_plated_hole (ctx_db board_ctx) = []"
    by (simp_all add: bare_pad_def board_ctx_def empty_ctx_def empty_db_def pad_padType_of_def
        pad_shape_of_def pad_size_xy_def str_or_def)
  show ?thesis
    using processPad_without_number [where pad = bare_pad and c = board_ctx and m = flip_matrix
        and dll = first_layer and cid = "''pcb_component_0''" and pos = "(0, 0)" and rot = 0
        and n = "PadNum 1"]
    unfolding Let_def h
    by (simp add: h)
qed

text \<open>
  Claim C10 as stated fails. Without the board transform the pad routine returns at once
  and no geometry record is inserted. And for a plated through-hole pad whose drill is
  \<^verbatim>\<open>null\<close> the routine raises a \<^verbatim>\<open>TypeError\<close> before it inserts the record.
\<close>

theorem processPad_guard_counterexample:
  "pad_number bare_pad = None \<and>
   processPad first_layer empty_ctx bare_pad ''pcb_component_0'' (0, 0) 0 = Inr empty_ctx \<and>
   db_pcb_smtpad (ctx_db empty_ctx) = [] \<and> db_pcb_plated_hole (ctx_db empty_ctx) = [] \<and>
   db_pcb_hole (ctx_db empty_ctx) = [] \<and>
   pad_number null_drill_pad = None \<and>
   processPad first_layer board_ctx null_drill_pad ''pcb_component_0'' (0, 0) 0 =
     Inl (TypeError, board_ctx)"
  by (simp add: processPad_def createPlatedHole_def bare_pad_def null_drill_pad_def board_ctx_def
      empty_ctx_def empty_db_def pad_padType_of_def pad_number_string_def str_or_def Let_def)

section \<open>Symbols and their ports\<close>

lemma sch_ports_only_refl: "sch_ports_only c c"
  unfolding sch_ports_only_def by (rule exI[of _ "db_schematic_port (ctx_db c)"]) simp

lemma sch_ports_only_trans: "sch_ports_only a b \<Longrightarrow> sch_ports_only b c \<Longrightarrow> sch_ports_only a c"
  unfolding sch_ports_only_def by auto

lemma sch_ports_only_fields:
  assumes "sch_ports_only c c'"
  shows "kicadSch c' = kicadSch c"
    and "k2cMatSch c' = k2cMatSch c"
    and "ctx_stats c' = ctx_stats c"
    and "symbolUuidToComponentId c' = symbolUuidToComponentId c"
    and "db_schematic_component (ctx_db c') = db_schematic_component (ctx_db c)"
    and "db_source_component (ctx_db c') = db_source_component (ctx_db c)"
  using assms unfolding sch_ports_only_def by auto

lemma create_port_only: "sch_ports_only c (create_port cid rot c pin)"
proof (cases "pin_sxAt pin")
  case None
  then show ?thesis by (simp add: create_port_def sch_ports_only_refl)
next
  case (Some a)
  then show ?thesis unfolding sch_ports_only_def create_port_def Let_def by auto
qed

lemma foldl_create_port_only: "sch_ports_only c (foldl (create_port cid rot) c pins)"
proof (induction pins arbitrary: c)
  case Nil
  then show ?case by (simp add: sch_ports_only_refl)
next
  case (Cons p ps)
  show ?case using Cons[of "create_port cid rot c p"] create_port_only[of c cid rot p]
    by (auto intro: sch_ports_only_trans)
qed

lemma createPorts_only: "sch_ports_only c (createPorts c symbol cid)"
  by (auto simp: createPorts_def Let_def sch_ports_only_refl foldl_create_port_only
        split: option.splits)



lemmas createPorts_fields = sch_ports_only_fields[OF createPorts_only]

lemma insert_source_component_unless_found_fields:
  shows "kicadSch (insert_source_component_unless_found g c sid nm ft mpn) = kicadSch c"
    and "k2cMatSch (insert_source_component_unless_found g c sid nm ft mpn) = k2cMatSch c"
    and "db_schematic_component (ctx_db (insert_source_component_unless_found g c sid nm ft mpn)) =
         db_schematic_component (ctx_db c)"
    and "length (db_source_component (ctx_db (insert_source_component_unless_found g c sid nm ft mpn)))
           \<le> Suc (length (db_source_component (ctx_db c)))"
    and "length (db_source_component (ctx_db c)) \<le>
         length (db_source_component (ctx_db (insert_source_component_unless_found g c sid nm ft mpn)))"
  by (simp_all add: insert_source_component_unless_found_def Let_def split: option.splits)

lemma insert_schematic_component_fields:
  shows "kicadSch (insert_schematic_component c x) = kicadSch c"
    and "k2cMatSch (insert_schematic_component c x) = k2cMatSch c"
    and "db_schematic_component (ctx_db (insert_schematic_component c x)) =
         db_schematic_component (ctx_db c) @ [x]"
    and "db_source_component (ctx_db (insert_schematic_component c x)) =
         db_source_component (ctx_db c)"
  by (simp_all add: insert_schematic_component_def Let_def)

lemma set_symbol_component_fields:
  shows "kicadSch (set_symbol_component c u i) = kicadSch c"
    and "k2cMatSch (set_symbol_component c u i) = k2cMatSch c"
    and "ctx_db (set_symbol_component c u i) = ctx_db c"
  by (simp_all add: set_symbol_component_def split: option.splits)

lemma bump_components_fields:
  shows "kicadSch (bump_components c) = kicadSch c"
    and "k2cMatSch (bump_components c) = k2cMatSch c"
    and "ctx_db (bump_components c) = ctx_db c"
  by (simp_all add: bump_components_def split: option.splits)

lemmas symbol_step_fields =
  insert_source_component_unless_found_fields(1-3) insert_schematic_component_fields
  set_symbol_component_fields bump_components_fields createPorts_fields

lemma processSymbol_fields:
  shows "kicadSch (processSymbol g c symb) = kicadSch c"
    and "k2cMatSch (processSymbol g c symb) = k2cMatSch c"
  by (simp_all add: processSymbol_def Let_def symbol_step_fields split: option.splits)

lemma processSymbol_counts:
  assumes "k2cMatSch c = Some m" and "sym_uuid symb = Some u" and "u \<noteq> []"
  shows "length (db_schematic_component (ctx_db (processSymbol g c symb))) =
           Suc (length (db_schematic_component (ctx_db c)))"
    and "length (db_source_component (ctx_db (processSymbol g c symb))) \<le>
           Suc (length (db_source_component (ctx_db c)))"
    and "length (db_source_component (ctx_db c)) \<le>
           length (db_source_component (ctx_db (processSymbol g c symb)))"
  using assms
  by (simp_all add: processSymbol_def Let_def symbol_step_fields
        insert_source_component_unless_found_fields(4,5))

lemma card_fresh:
  assumes "finite A" and "u \<notin> P" and "u \<noteq> []"
  shows "card (insert u A - {[]} - P) = Suc (card (A - {[]} - insert u P))"
proof -
  have "insert u A - {[]} - P = insert u (A - {[]} - insert u P)" using assms by auto
  moreover have "u \<notin> A - {[]} - insert u P" by simp
  moreover have "finite (A - {[]} - insert u P)" using assms(1) by simp
  ultimately show ?thesis by simp
qed

lemma foldl_symbols_loop:
  assumes "k2cMatSch c = Some m"
  shows "loop_inv c P syms (foldl (symbols_loop g) (c, P) syms)"
  using assms
proof (induction syms arbitrary: c P)
  case Nil
  then show ?case by (simp add: loop_inv_def)
next
  case (Cons s syms)
  let ?U = "set (List.map_filter sym_uuid syms)"
  show ?case
  proof (cases "sym_uuid s")
    case None
    then have "symbols_loop g (c, P) s = (c, P)" by (simp add: symbols_loop_def)
    then show ?thesis using Cons.IH[OF Cons.prems, of P] None by (simp add: loop_inv_def)
  next
    case (Some u)
    show ?thesis
    proof (cases "u = [] \<or> u \<in> P")
      case True
      then have st: "symbols_loop g (c, P) s = (c, P)" using Some by (simp add: symbols_loop_def)
      have "insert u ?U - {[]} - P = ?U - {[]} - P" using True by auto
      moreover have "P \<union> (insert u ?U - {[]}) = P \<union> (?U - {[]})" using True by auto
      ultimately show ?thesis
        using Cons.IH[OF Cons.prems, of P] Some st by (simp add: loop_inv_def)
    next
      case False
      let ?c = "processSymbol g c s"
      have st: "symbols_loop g (c, P) s = (?c, insert u P)"
        using Some False by (simp add: symbols_loop_def)
      have m': "k2cMatSch ?c = Some m" using Cons.prems by (simp add: processSymbol_fields)
      have cnt: "length (db_schematic_component (ctx_db ?c)) =
                 Suc (length (db_schematic_component (ctx_db c)))"
        "length (db_source_component (ctx_db ?c)) \<le> Suc (length (db_source_component (ctx_db c)))"
        "length (db_source_component (ctx_db c)) \<le> length (db_source_component (ctx_db ?c))"
        using processSymbol_counts[OF Cons.prems Some, of g] False by simp_all
      have cf: "card (insert u ?U - {[]} - P) = Suc (card (?U - {[]} - insert u P))"
        using False by (intro card_fresh) simp_all
      have un: "insert u (P \<union> (?U - {[]})) = P \<union> (insert u ?U - {[]})" using False by auto
      show ?thesis
        using Cons.IH[OF m', of "insert u P"] Some cnt
        by (simp add: loop_inv_def st cf un processSymbol_fields Cons.prems)
    qed
  qed
qed

lemma foldl_symbols_loop_skip:
  assumes "set (List.map_filter sym_uuid syms) - {[]} \<subseteq> P"
  shows "foldl (symbols_loop g) (c, P) syms = (c, P)"
  using assms
proof (induction syms)
  case Nil
  then show ?case by simp
next
  case (Cons s syms)
  then have "symbols_loop g (c, P) s = (c, P)"
    by (auto simp: symbols_loop_def split: option.splits)
  moreover have "set (List.map_filter sym_uuid syms) - {[]} \<subseteq> P"
    using Cons.prems by (auto split: option.splits)
  ultimately show ?case using Cons.IH by simp
qed

text \<open>
  Claim C4. A second step of the symbol pass changes nothing: every symbol with a unique id
  is then in the set of processed symbols and is skipped. And when the sheet and its
  transform are present, a step adds exactly one schematic component for every unique id
  that is still pending, however often that id occurs among the symbols, adds at most one
  source component per such id, and leaves no id pending.
\<close>

theorem CollectLibrarySymbolsStage_once:
  "CollectLibrarySymbolsStage_step new_id (CollectLibrarySymbolsStage_step new_id s) =
     CollectLibrarySymbolsStage_step new_id s \<and>
   (kicadSch (stage_ctx s) = Some sch \<and> k2cMatSch (stage_ctx s) = Some m \<longrightarrow>
      length (db_schematic_component (ctx_db (stage_ctx (CollectLibrarySymbolsStage_step new_id s)))) =
        length (db_schematic_component (ctx_db (stage_ctx s))) +
        card (pending_uuids sch (processedSymbols s)) \<and>
      length (db_source_component (ctx_db (stage_ctx (CollectLibrarySymbolsStage_step new_id s)))) \<le>
        length (db_source_component (ctx_db (stage_ctx s))) +
        card (pending_uuids sch (processedSymbols s)) \<and>
      pending_uuids sch (processedSymbols (CollectLibrarySymbolsStage_step new_id s)) = {})"
proof (cases "\<exists>sch m. kicadSch (stage_ctx s) = Some sch \<and> k2cMatSch (stage_ctx s) = Some m")
  case False
  then have "CollectLibrarySymbolsStage_step new_id s = s\<lparr>finished := True\<rparr>"
    by (auto simp: CollectLibrarySymbolsStage_step_def Let_def split: option.splits)
  moreover from False have "CollectLibrarySymbolsStage_step new_id (s\<lparr>finished := True\<rparr>) =
                            s\<lparr>finished := True\<rparr>"
    by (auto simp: CollectLibrarySymbolsStage_step_def Let_def split: option.splits)
  ultimately show ?thesis using False by auto
next
  case True
  then obtain sch' m' where h: "kicadSch (stage_ctx s) = Some sch'" "k2cMatSch (stage_ctx s) = Some m'"
    by blast
  let ?c = "stage_ctx s" and ?P = "processedSymbols s"
  obtain c1 P1 where f: "foldl (symbols_loop new_id) (?c, ?P) (sch_symbols sch') = (c1, P1)"
    by (cases "foldl (symbols_loop new_id) (?c, ?P) (sch_symbols sch')")
  have inv: "loop_inv ?c ?P (sch_symbols sch') (c1, P1)"
    using foldl_symbols_loop[OF h(2), of ?P "sch_symbols sch'" new_id] f by simp
  have s1: "CollectLibrarySymbolsStage_step new_id s =
            s\<lparr>stage_ctx := c1, processedSymbols := P1, finished := True\<rparr>"
    using h f by (simp add: CollectLibrarySymbolsStage_step_def Let_def)
  have c1: "kicadSch c1 = Some sch'" "k2cMatSch c1 = Some m'"
    using inv h by (simp_all add: loop_inv_def)
  have sub: "set (List.map_filter sym_uuid (sch_symbols sch')) - {[]} \<subseteq> P1"
    using inv by (auto simp: loop_inv_def)
  have f2: "foldl (symbols_loop new_id) (c1, P1) (sch_symbols sch') = (c1, P1)"
    by (rule foldl_symbols_loop_skip[OF sub])
  have idem: "CollectLibrarySymbolsStage_step new_id (CollectLibrarySymbolsStage_step new_id s) =
              CollectLibrarySymbolsStage_step new_id s"
    unfolding s1 using c1 f2 by (simp add: CollectLibrarySymbolsStage_step_def Let_def)
  have pend: "pending_uuids sch' P1 = {}" using sub by (auto simp: pending_uuids_def)
  show ?thesis
    using idem inv h pend by (auto simp: s1 loop_inv_def pending_uuids_def)
qed

theorem CollectLibrarySymbolsStage_once_witness:
  "kicadSch (stage_ctx twice_stage) = Some twice_sch \<and>
   k2cMatSch (stage_ctx twice_stage) = Some sch_matrix \<and>
   sch_symbols twice_sch = [r1_symbol, r1_symbol] \<and>
   length (db_schematic_component
     (ctx_db (stage_ctx (CollectLibrarySymbolsStage_step counter_id twice_stage)))) = 1 \<and>
   length (db_source_component
     (ctx_db (stage_ctx (CollectLibrarySymbolsStage_step counter_id twice_stage)))) \<le> 1 \<and>
   CollectLibrarySymbolsStage_step counter_id (CollectLibrarySymbolsStage_step counter_id twice_stage) =
     CollectLibrarySymbolsStage_step counter_id twice_stage"
proof -
  have h: "kicadSch (stage_ctx twice_stage) = Some twice_sch"
    "k2cMatSch (stage_ctx twice_stage) = Some sch_matrix"
    "processedSymbols twice_stage = {}"
    "db_schematic_component (ctx_db (stage_ctx twice_stage)) = []"
    "db_source_component (ctx_db (stage_ctx twice_stage)) = []"
    by (simp_all add: twice_stage_def empty_ctx_def empty_db_def)
  have p: "card (pending_uuids twice_sch {}) = 1"
    by (simp add: pending_uuids_def twice_sch_def r1_symbol_def)
  show ?thesis
    using CollectLibrarySymbolsStage_once[of counter_id twice_stage twice_sch sch_matrix]
    by (simp add: h p) (simp add: twice_sch_def)
qed














section \<open>Missing preconditions\<close>

text \<open>
  Claim C5. When an input that a pass needs is absent from the context, its step returns the
  stage with the flag \<open>finished\<close> set and everything else as it was: no record is inserted
  and no table of the context changes. This holds for the symbol pass (sheet, sheet
  transform), the trace pass and the net pass (board, net table), the via pass (board, board
  transform, net table), the zone pass (the same three) and the graphics pass (board, board
  transform); and without their
  transform the pad, outline and symbol routines return the context unchanged. Every
  function of the model is total and the pad routines, the only ones that can raise, return
  normally here, so no step raises.
\<close>

theorem steps_without_preconditions:
  "(kicadSch (stage_ctx ss) = None \<or> k2cMatSch (stage_ctx ss) = None \<longrightarrow>
      CollectLibrarySymbolsStage_step new_id ss = ss\<lparr>finished := True\<rparr>) \<and>
   (kicadPcb (stage_ctx ts) = None \<or> netNumToName (stage_ctx ts) = None \<longrightarrow>
      CollectSourceTracesStage_step ts = ts\<lparr>finished := True\<rparr>) \<and>
   (kicadPcb (stage_ctx s) = None \<or> netNumToName (stage_ctx s) = None \<longrightarrow>
      CollectNetsStage_step s = s\<lparr>finished := True\<rparr>) \<and>
   (kicadPcb (stage_ctx s) = None \<or> k2cMatPcb (stage_ctx s) = None \<or>
    netNumToName (stage_ctx s) = None \<longrightarrow>
      CollectViasStage_step s = s\<lparr>finished := True\<rparr>) \<and>
   (kicadPcb (stage_ctx s) = None \<or> k2cMatPcb (stage_ctx s) = None \<longrightarrow>
      CollectGraphicsStage_step s = s\<lparr>finished := True\<rparr>) \<and>
   (kicadPcb (stage_ctx s) = None \<or> k2cMatPcb (stage_ctx s) = None \<or>
    netNumToName (stage_ctx s) = None \<longrightarrow>
      CollectZonesStage_step num_text s = s\<lparr>finished := True\<rparr>) \<and>
   (k2cMatPcb c = None \<longrightarrow>
      processPads dll c fp cid pos rot = Inr c \<and> processPad dll c pad cid pos rot = Inr c \<and>
      createBoardOutline c lines = c) \<and>
   (k2cMatSch c = None \<longrightarrow> processSymbol new_id c symbol = c)"
proof -
  have 1: "kicadSch (stage_ctx ss) = None \<or> k2cMatSch (stage_ctx ss) = None \<longrightarrow>
      CollectLibrarySymbolsStage_step new_id ss = ss\<lparr>finished := True\<rparr>"
    by (auto simp: CollectLibrarySymbolsStage_step_def Let_def split: option.splits)
  have 2: "kicadPcb (stage_ctx ts) = None \<or> netNumToName (stage_ctx ts) = None \<longrightarrow>
      CollectSourceTracesStage_step ts = ts\<lparr>finished := True\<rparr>"
    by (auto simp: CollectSourceTracesStage_step_def Let_def split: option.splits)
  have 3: "kicadPcb (stage_ctx s) = None \<or> netNumToName (stage_ctx s) = None \<longrightarrow>
      CollectNetsStage_step s = s\<lparr>finished := True\<rparr>"
    by (auto simp: CollectNetsStage_step_def Let_def split: option.splits)
  have 4: "kicadPcb (stage_ctx s) = None \<or> k2cMatPcb (stage_ctx s) = None \<or>
    netNumToName (stage_ctx s) = None \<longrightarrow>
      CollectViasStage_step s = s\<lparr>finished := True\<rparr>"
    by (auto simp: CollectViasStage_step_def Let_def split: option.splits)
  have 5: "kicadPcb (stage_ctx s) = None \<or> k2cMatPcb (stage_ctx s) = None \<longrightarrow>
      CollectGraphicsStage_step s = s\<lparr>finished := True\<rparr>"
    by (auto simp: CollectGraphicsStage_step_def Let_def split: option.splits)
  have 8: "kicadPcb (stage_ctx s) = None \<or> k2cMatPcb (stage_ctx s) = None \<or>
    netNumToName (stage_ctx s) = None \<longrightarrow>
      CollectZonesStage_step num_text s = s\<lparr>finished := True\<rparr>"
    by (auto simp: CollectZonesStage_step_def Let_def split: option.splits)
  have 6: "k2cMatPcb c = None \<longrightarrow>
      processPads dll c fp cid pos rot = Inr c \<and> processPad dll c pad cid pos rot = Inr c \<and>
      createBoardOutline c lines = c"
    by (simp add: processPads_def processPad_def createBoardOutline_def)
  have 7: "k2cMatSch c = None \<longrightarrow> processSymbol new_id c symbol = c"
    by (simp add: processSymbol_def)
  from 1 2 3 4 5 6 7 8 show ?thesis by blast
qed

theorem steps_without_preconditions_witness:
  "kicadSch (stage_ctx idle_symbols_stage) = None \<and>
   CollectLibrarySymbolsStage_step counter_id idle_symbols_stage = idle_symbols_stage\<lparr>finished := True\<rparr> \<and>
   kicadPcb (stage_ctx idle_traces_stage) = None \<and>
   CollectSourceTracesStage_step idle_traces_stage = idle_traces_stage\<lparr>finished := True\<rparr> \<and>
   kicadPcb (stage_ctx idle_stage) = None \<and>
   CollectNetsStage_step idle_stage = idle_stage\<lparr>finished := True\<rparr> \<and>
   CollectViasStage_step idle_stage = idle_stage\<lparr>finished := True\<rparr> \<and>
   CollectGraphicsStage_step idle_stage = idle_stage\<lparr>finished := True\<rparr> \<and>
   CollectZonesStage_step floor_text idle_stage = idle_stage\<lparr>finished := True\<rparr> \<and>
   k2cMatPcb empty_ctx = None \<and>
   processPad first_layer empty_ctx bare_pad ''pcb_component_0'' (0, 0) 0 = Inr empty_ctx \<and>
   ctx_db (stage_ctx (idle_stage\<lparr>finished := True\<rparr>)) = empty_db \<and>
   finished (idle_stage\<lparr>finished := True\<rparr>)"
proof -
  have h: "kicadSch (stage_ctx idle_symbols_stage) = None"
    "kicadPcb (stage_ctx idle_traces_stage) = None"
    "kicadPcb (stage_ctx idle_stage) = None" "k2cMatPcb empty_ctx = None"
    "k2cMatSch empty_ctx = None"
    "ctx_db (stage_ctx idle_stage) = empty_db"
    by (simp_all add: idle_symbols_stage_def idle_traces_stage_def idle_stage_def empty_ctx_def)
  show ?thesis
    using steps_without_preconditions[where ss = idle_symbols_stage and new_id = counter_id
        and ts = idle_traces_stage and s = idle_stage and num_text = floor_text
        and c = empty_ctx and dll = first_layer and fp = bare_footprint
        and cid = "''pcb_component_0''" and pos = "(0, 0)" and rot = 0 and pad = bare_pad
        and lines = "[]" and symbol = r1_symbol]
    by (simp add: h)
qed

end
